theory Spec2Isabelle
  imports Main
begin

section \<open>Go values shared by the server and the client\<close>

text \<open>
  A Go \<open>error\<close> is modelled by the two things the programs observe of it: its text
  (\<open>err.Error()\<close>, what \<open>fmt.Sprint\<close> and \<open>log.Fatalln\<close> print) and whether
  \<open>errors.Is(err, context.DeadlineExceeded)\<close> holds for it.
\<close>

datatype go_error = GoError (err_text: string) (err_is_deadline: bool)

text \<open>\<open>fmt.Errorf(prefix + "%w", err)\<close>: the text is prefixed, the wrapped chain is kept.\<close>

definition Errorf_w :: "string \<Rightarrow> go_error \<Rightarrow> go_error" where
  "Errorf_w prefix e = GoError (prefix @ err_text e) (err_is_deadline e)"

text \<open>
  \<open>time.Duration\<close> is a count of nanoseconds (an \<open>int64\<close>); an instant is a count of
  nanoseconds on the same scale.
\<close>

type_synonym Duration = int
type_synonym Time = int

subsection \<open>Decimal formatting (\<open>fmtInt\<close>, \<open>fmtFrac\<close>, \<open>Duration.String\<close>, \<open>%d\<close>)\<close>

text \<open>
  The values formatted are \<open>uint64\<close> magnitudes; they are kept as (non-negative)
  integers. \<open>byte(digit) + '0'\<close>:
\<close>

definition digitChar :: "int \<Rightarrow> char" where
  "digitChar d = char_of (48 + d)"

text \<open>\<open>fmtInt\<close> writes the decimal digits of \<open>v\<close>, a single \<open>0\<close> for zero.\<close>

function fmtInt :: "int \<Rightarrow> string" where
  "fmtInt v = (if v < 10 then [digitChar v] else fmtInt (v div 10) @ [digitChar (v mod 10)])"
  by pat_completeness auto
termination
  by (relation "measure nat") auto

declare fmtInt.simps [simp del]

text \<open>
  \<open>fmtFrac\<close> peels \<open>prec\<close> decimal digits off \<open>v\<close>, least significant first, in front
  of \<open>buf\<close>; trailing zeros and a then useless decimal point are omitted. It returns the
  text and the remaining integer part.
\<close>

fun fmtFrac :: "int \<Rightarrow> nat \<Rightarrow> bool \<Rightarrow> string \<Rightarrow> string \<times> int" where
  "fmtFrac v 0 print buf = ((if print then CHR ''.'' # buf else buf), v)"
| "fmtFrac v (Suc i) print buf =
     (let digit = v mod 10; print' = (print \<or> digit \<noteq> 0)
      in fmtFrac (v div 10) i print' (if print' then digitChar digit # buf else buf))"

text \<open>
  \<open>Duration.String\<close> of the Go library, which \<open>fmt.Sprint\<close> calls on a
  \<open>time.Duration\<close> operand: below one second the unit is ns, \<open>\<mu>\<close>s (the two bytes
  C2 B5) or ms; from one second on the form is \<open>1h2m3.5s\<close>.
\<close>

definition Duration_String :: "Duration \<Rightarrow> string" where
  "Duration_String d =
     (let u = \<bar>d\<bar>;
          neg = (d < 0);
          text =
            (if u < 1000000000 then
               (if u = 0 then ''0s''
                else if u < 1000 then
                  (case fmtFrac u 0 False ''ns'' of (frac, u') \<Rightarrow> fmtInt u' @ frac)
                else if u < 1000000 then
                  (case fmtFrac u 3 False [CHR 0xC2, CHR 0xB5, CHR ''s''] of
                     (frac, u') \<Rightarrow> fmtInt u' @ frac)
                else
                  (case fmtFrac u 6 False ''ms'' of (frac, u') \<Rightarrow> fmtInt u' @ frac))
             else
               (case fmtFrac u 9 False ''s'' of
                  (frac, u1) \<Rightarrow>
                    (let secs = fmtInt (u1 mod 60) @ frac; u2 = u1 div 60
                     in if u2 > 0 then
                          (let mins = fmtInt (u2 mod 60) @ ''m'' @ secs; u3 = u2 div 60
                           in if u3 > 0 then fmtInt u3 @ ''h'' @ mins else mins)
                        else secs)))
      in if neg then CHR ''-'' # text else text)"

text \<open>The verb \<open>%d\<close> on an \<open>int\<close>.\<close>

definition fmt_d :: "int \<Rightarrow> string" where
  "fmt_d n = (if n < 0 then CHR ''-'' # fmtInt (- n) else fmtInt n)"

subsection \<open>JSON values and \<open>encoding/json\<close> on the programs' struct types\<close>

text \<open>
  A JSON document as the decoder sees it once tokenised. \<open>JInt\<close> is a number literal
  without fraction or exponent, \<open>JReal\<close> any other number literal (kept as text). The
  members of an object keep their order and their duplicates.
\<close>

datatype json =
    JNull
  | JBool bool
  | JInt int
  | JReal string
  | JString string
  | JArray "json list"
  | JObject "(string \<times> json) list"

fun json_kind :: "json \<Rightarrow> string" where
  "json_kind JNull = ''null''"
| "json_kind (JBool _) = ''bool''"
| "json_kind (JInt _) = ''number''"
| "json_kind (JReal _) = ''number''"
| "json_kind (JString _) = ''string''"
| "json_kind (JArray _) = ''array''"
| "json_kind (JObject _) = ''object''"

text \<open>
  The \<open>*json.UnmarshalTypeError\<close> for a JSON value of the wrong kind; it never wraps a
  deadline error. Its text names the kind of the value and the Go type; the path of the
  struct field, which the library adds for a value inside a struct, is left out.
\<close>

definition UnmarshalTypeError :: "json \<Rightarrow> string \<Rightarrow> go_error" where
  "UnmarshalTypeError j ty =
     GoError (''json: cannot unmarshal '' @ json_kind j @ '' into Go value of type '' @ ty) False"

text \<open>
  Key matching is by \<open>bytes.EqualFold\<close>. All field names of these programs are ASCII, so
  the folding only has to map ASCII letters to one case and the two non-ASCII runes whose
  simple case folding reaches an ASCII letter: U+017F (bytes C5 BF, folds to \<open>s\<close>) and
  U+212A (bytes E2 84 AA, folds to \<open>k\<close>). Every other byte is compared as it is.
\<close>

definition foldByte :: "char \<Rightarrow> char" where
  "foldByte c = (let n = (of_char c :: nat) in if 65 \<le> n \<and> n \<le> 90 then char_of (n + 32) else c)"

fun foldName :: "string \<Rightarrow> string" where
  "foldName [] = []"
| "foldName (a # b # c # rest) =
     (if of_char a = (0xE2::nat) \<and> of_char b = (0x84::nat) \<and> of_char c = (0xAA::nat)
        then CHR ''k'' # foldName rest
      else if of_char a = (0xC5::nat) \<and> of_char b = (0xBF::nat)
        then CHR ''s'' # foldName (c # rest)
      else foldByte a # foldName (b # c # rest))"
| "foldName [a, b] =
     (if of_char a = (0xC5::nat) \<and> of_char b = (0xBF::nat) then ''s''
      else [foldByte a, foldByte b])"
| "foldName [a] = [foldByte a]"

definition keyMatches :: "string \<Rightarrow> string \<Rightarrow> bool" where
  "keyMatches name key = (foldName key = foldName name)"

text \<open>
  A struct type is described by its tagged fields: the JSON name and the function that
  decodes a JSON value into that field of a struct value.
\<close>

type_synonym 'a field = "string \<times> (json \<Rightarrow> 'a \<Rightarrow> go_error + 'a)"

text \<open>
  The members of an object are decoded in order; a key that matches no field is skipped.
  The decoder reports the first type error; the callers discard the struct on error, so
  the model stops there.
\<close>

fun decodeObject :: "'a field list \<Rightarrow> (string \<times> json) list \<Rightarrow> 'a \<Rightarrow> go_error + 'a" where
  "decodeObject fs [] x = Inr x"
| "decodeObject fs ((k, v) # ms) x =
     (case find (\<lambda>f. keyMatches (fst f) k) fs of
        None \<Rightarrow> decodeObject fs ms x
      | Some f \<Rightarrow>
          (case snd f v x of
             Inl e \<Rightarrow> Inl e
           | Inr x' \<Rightarrow> decodeObject fs ms x'))"

text \<open>Into a struct: \<open>null\<close> leaves it as it is, an object fills it, anything else is a type error.\<close>

definition decodeStruct :: "string \<Rightarrow> 'a field list \<Rightarrow> json \<Rightarrow> 'a \<Rightarrow> go_error + 'a" where
  "decodeStruct ty fs j x =
     (case j of
        JNull \<Rightarrow> Inr x
      | JObject ms \<Rightarrow> decodeObject fs ms x
      | _ \<Rightarrow> Inl (UnmarshalTypeError j ty))"

text \<open>Into a \<open>string\<close> field: \<open>null\<close> leaves it, a JSON string sets it.\<close>

definition stringField :: "(string \<Rightarrow> 'a \<Rightarrow> 'a) \<Rightarrow> json \<Rightarrow> 'a \<Rightarrow> go_error + 'a" where
  "stringField upd j x =
     (case j of
        JNull \<Rightarrow> Inr x
      | JString s \<Rightarrow> Inr (upd s x)
      | _ \<Rightarrow> Inl (UnmarshalTypeError j ''string''))"

text \<open>Into an \<open>int\<close> field (64 bits): an integer literal in range sets it.\<close>

definition intField :: "(int \<Rightarrow> 'a \<Rightarrow> 'a) \<Rightarrow> json \<Rightarrow> 'a \<Rightarrow> go_error + 'a" where
  "intField upd j x =
     (case j of
        JNull \<Rightarrow> Inr x
      | JInt n \<Rightarrow>
          (if - (2 ^ 63) \<le> n \<and> n < 2 ^ 63 then Inr (upd n x)
           else Inl (UnmarshalTypeError j ''int''))
      | _ \<Rightarrow> Inl (UnmarshalTypeError j ''int''))"

text \<open>
  \<open>json.NewDecoder(body).Decode(&v)\<close>: the body is given as the outcome of reading its
  first JSON value, \<open>Inl\<close> when the stream fails or is not well-formed JSON there.
\<close>

definition Decode :: "string \<Rightarrow> 'a field list \<Rightarrow> go_error + json \<Rightarrow> 'a \<Rightarrow> go_error + 'a" where
  "Decode ty fs body zero =
     (case body of
        Inl e \<Rightarrow> Inl e
      | Inr j \<Rightarrow> decodeStruct ty fs j zero)"

subsection \<open>The struct types\<close>

record ErrorResponse =
  Error :: string
  StatusCode :: int

record QuotationResponse =
  Bid :: string

record Quotation =
  Code :: string
  CodeIn :: string
  Name :: string
  High :: string
  Low :: string
  VarBid :: string
  PctChange :: string
  Bid :: string
  Ask :: string
  Timestamp :: string
  CreateDate :: string

text \<open>The embedded struct carries a tag, so it is the member \<open>USDBRL\<close> of the document.\<close>

record USDBRLQuotation =
  Quotation :: Quotation

definition zero_ErrorResponse :: ErrorResponse where
  "zero_ErrorResponse = \<lparr>Error = [], StatusCode = 0\<rparr>"

definition zero_QuotationResponse :: QuotationResponse where
  "zero_QuotationResponse = \<lparr>QuotationResponse.Bid = []\<rparr>"

definition zero_Quotation :: Quotation where
  "zero_Quotation =
     \<lparr>Code = [], CodeIn = [], Name = [], High = [], Low = [], VarBid = [], PctChange = [],
      Quotation.Bid = [], Ask = [], Timestamp = [], CreateDate = []\<rparr>"

definition zero_USDBRLQuotation :: USDBRLQuotation where
  "zero_USDBRLQuotation = \<lparr>Quotation = zero_Quotation\<rparr>"

definition ErrorResponse_fields :: "ErrorResponse field list" where
  "ErrorResponse_fields =
     [(''error'', stringField (\<lambda>s x. x\<lparr>Error := s\<rparr>)),
      (''status_code'', intField (\<lambda>n x. x\<lparr>StatusCode := n\<rparr>))]"

definition QuotationResponse_fields :: "QuotationResponse field list" where
  "QuotationResponse_fields =
     [(''bid'', stringField (\<lambda>s x. x\<lparr>QuotationResponse.Bid := s\<rparr>))]"

definition Quotation_fields :: "Quotation field list" where
  "Quotation_fields =
     [(''code'', stringField (\<lambda>s x. x\<lparr>Code := s\<rparr>)),
      (''codein'', stringField (\<lambda>s x. x\<lparr>CodeIn := s\<rparr>)),
      (''name'', stringField (\<lambda>s x. x\<lparr>Name := s\<rparr>)),
      (''high'', stringField (\<lambda>s x. x\<lparr>High := s\<rparr>)),
      (''low'', stringField (\<lambda>s x. x\<lparr>Low := s\<rparr>)),
      (''varBid'', stringField (\<lambda>s x. x\<lparr>VarBid := s\<rparr>)),
      (''pctChange'', stringField (\<lambda>s x. x\<lparr>PctChange := s\<rparr>)),
      (''bid'', stringField (\<lambda>s x. x\<lparr>Quotation.Bid := s\<rparr>)),
      (''ask'', stringField (\<lambda>s x. x\<lparr>Ask := s\<rparr>)),
      (''timestamp'', stringField (\<lambda>s x. x\<lparr>Timestamp := s\<rparr>)),
      (''create_date'', stringField (\<lambda>s x. x\<lparr>CreateDate := s\<rparr>))]"

definition USDBRLQuotation_fields :: "USDBRLQuotation field list" where
  "USDBRLQuotation_fields =
     [(''USDBRL'',
       (\<lambda>j x. case decodeStruct ''main.Quotation'' Quotation_fields j (Quotation x) of
                 Inl e \<Rightarrow> Inl e
               | Inr q \<Rightarrow> Inr (x\<lparr>Quotation := q\<rparr>)))]"

text \<open>\<open>json.NewEncoder(w).Encode(v)\<close> produces these documents.\<close>

definition encode_ErrorResponse :: "ErrorResponse \<Rightarrow> json" where
  "encode_ErrorResponse e =
     JObject [(''error'', JString (Error e)), (''status_code'', JInt (StatusCode e))]"

definition encode_QuotationResponse :: "QuotationResponse \<Rightarrow> json" where
  "encode_QuotationResponse r = JObject [(''bid'', JString (QuotationResponse.Bid r))]"

section \<open>Contexts, the response writer and the store\<close>

text \<open>
  A \<open>context.Context\<close> is modelled by its deadline. Cancellation for another reason
  reaches the programs only as the error of the call it interrupts, which the
  environment supplies.
\<close>

record Context =
  deadline :: "Time option"

definition Background :: Context where
  "Background = \<lparr>deadline = None\<rparr>"

text \<open>
  \<open>context.WithDeadline\<close>: when the parent's deadline is already sooner, the parent's
  deadline is kept; otherwise the new one applies.
\<close>

definition WithDeadline :: "Context \<Rightarrow> Time \<Rightarrow> Context" where
  "WithDeadline parent d =
     (case deadline parent of
        Some cur \<Rightarrow> if cur < d then parent else \<lparr>deadline = Some d\<rparr>
      | None \<Rightarrow> \<lparr>deadline = Some d\<rparr>)"

text \<open>\<open>context.WithTimeout(parent, timeout)\<close> called when the clock reads \<open>now\<close>.\<close>

definition WithTimeout :: "Time \<Rightarrow> Context \<Rightarrow> Duration \<Rightarrow> Context" where
  "WithTimeout now parent timeout = WithDeadline parent (now + timeout)"

definition expired :: "Time \<Rightarrow> Context \<Rightarrow> bool" where
  "expired now ctx = (case deadline ctx of Some d \<Rightarrow> d \<le> now | None \<Rightarrow> False)"

definition DeadlineExceeded :: go_error where
  "DeadlineExceeded = GoError ''context deadline exceeded'' True"

text \<open>An HTTP response as the caller of \<open>http.DefaultClient.Do\<close> reads it.\<close>

record Response =
  resp_StatusCode :: int
  resp_Body :: "go_error + json"

text \<open>
  \<open>http.DefaultClient.Do(req)\<close> for a request bound to \<open>ctx\<close>: a context whose deadline
  has passed fails the call with the deadline error; otherwise the outcome is the
  environment's (a transport error, among them a deadline that elapses during the call,
  or a response).
\<close>

definition DefaultClient_Do :: "Time \<Rightarrow> go_error + Response \<Rightarrow> Context \<Rightarrow> go_error + Response" where
  "DefaultClient_Do now outcome ctx = (if expired now ctx then Inl DeadlineExceeded else outcome)"

text \<open>
  The \<open>http.ResponseWriter\<close> of one request. The first \<open>WriteHeader\<close> fixes the status
  line; a later call is superfluous and changes nothing. A write before any
  \<open>WriteHeader\<close> sends status 200 first. \<open>body\<close> holds the documents written with
  success; the \<open>n\<close>-th write fails when the environment says so, and then adds nothing.
\<close>

record ResponseWriter =
  wroteHeader :: bool
  status :: int
  body :: "json list"
  nwrites :: nat

definition new_ResponseWriter :: ResponseWriter where
  "new_ResponseWriter = \<lparr>wroteHeader = False, status = 0, body = [], nwrites = 0\<rparr>"

definition WriteHeader :: "int \<Rightarrow> ResponseWriter \<Rightarrow> ResponseWriter" where
  "WriteHeader code rw = (if wroteHeader rw then rw else rw\<lparr>wroteHeader := True, status := code\<rparr>)"

definition Encode ::
  "(nat \<Rightarrow> go_error option) \<Rightarrow> json \<Rightarrow> ResponseWriter \<Rightarrow> go_error option \<times> ResponseWriter" where
  "Encode fault doc rw =
     (let rw1 = WriteHeader 200 rw;
          rw2 = rw1\<lparr>nwrites := Suc (nwrites rw1)\<rparr>
      in case fault (nwrites rw1) of
           Some e \<Rightarrow> (Some e, rw2)
         | None \<Rightarrow> (None, rw2\<lparr>body := body rw2 @ [doc]\<rparr>))"

text \<open>
  The SQLite store: tables in creation order, each with its column names and its rows; a
  row associates the columns of the insert with the values bound to them.
\<close>

record table =
  columns :: "string list"
  rows :: "(string \<times> string) list list"

type_synonym store = "(string \<times> table) list"

text \<open>
  The two statements the server issues: \<open>CREATE TABLE [IF NOT EXISTS] name(columns)\<close>
  and \<open>INSERT INTO name(columns) VALUES (?, ..., ?)\<close>.
\<close>

datatype statement =
    CreateTable bool string "string list"
  | InsertInto string "string list"

text \<open>Compiling a statement: an insert needs its table and its columns to exist.\<close>

definition sqlite_prepare :: "statement \<Rightarrow> store \<Rightarrow> go_error option" where
  "sqlite_prepare stmt s =
     (case stmt of
        CreateTable ine name cols \<Rightarrow> None
      | InsertInto name cols \<Rightarrow>
          (case map_of s name of
             None \<Rightarrow> Some (GoError (''no such table: '' @ name) False)
           | Some t \<Rightarrow>
               (case find (\<lambda>c. c \<notin> set (columns t)) cols of
                  Some c \<Rightarrow> Some (GoError (''table '' @ name @ '' has no column named '' @ c) False)
                | None \<Rightarrow> None)))"

text \<open>Running a compiled statement with its bound arguments.\<close>

definition sqlite_step :: "statement \<Rightarrow> string list \<Rightarrow> store \<Rightarrow> go_error + store" where
  "sqlite_step stmt args s =
     (case stmt of
        CreateTable ine name cols \<Rightarrow>
          (case map_of s name of
             Some t \<Rightarrow>
               if ine then Inr s
               else Inl (GoError (''table '' @ name @ '' already exists'') False)
           | None \<Rightarrow> Inr (s @ [(name, \<lparr>columns = cols, rows = []\<rparr>)]))
      | InsertInto name cols \<Rightarrow>
          (case map_of s name of
             None \<Rightarrow> Inl (GoError (''no such table: '' @ name) False)
           | Some t \<Rightarrow>
               Inr (map (\<lambda>(n, t'). if n = name then (n, t'\<lparr>rows := rows t' @ [zip cols args]\<rparr>)
                                    else (n, t')) s)))"

text \<open>
  \<open>db.Exec(query)\<close>, \<open>db.Prepare(query)\<close> and \<open>stmt.ExecContext(ctx, args...)\<close>. Each
  takes the fault the environment injects into the call (the file cannot be opened, the
  database is locked, the deadline elapses while the statement runs, ...). A context
  whose deadline has passed fails \<open>ExecContext\<close> before the statement runs.
\<close>

definition db_Exec :: "go_error option \<Rightarrow> statement \<Rightarrow> store \<Rightarrow> go_error + store" where
  "db_Exec fault stmt s =
     (case fault of
        Some e \<Rightarrow> Inl e
      | None \<Rightarrow>
          (case sqlite_prepare stmt s of
             Some e \<Rightarrow> Inl e
           | None \<Rightarrow> sqlite_step stmt [] s))"

definition db_Prepare :: "go_error option \<Rightarrow> statement \<Rightarrow> store \<Rightarrow> go_error + statement" where
  "db_Prepare fault stmt s =
     (case fault of
        Some e \<Rightarrow> Inl e
      | None \<Rightarrow>
          (case sqlite_prepare stmt s of
             Some e \<Rightarrow> Inl e
           | None \<Rightarrow> Inr stmt))"

definition stmt_ExecContext ::
  "Time \<Rightarrow> go_error option \<Rightarrow> Context \<Rightarrow> statement \<Rightarrow> string list \<Rightarrow> store \<Rightarrow> go_error + store" where
  "stmt_ExecContext now fault ctx stmt args s =
     (if expired now ctx then Inl DeadlineExceeded
      else case fault of
             Some e \<Rightarrow> Inl e
           | None \<Rightarrow> sqlite_step stmt args s)"

section \<open>The server (\<open>server/server.go\<close>)\<close>

text \<open>The package variables set from the flags, and the store behind \<open>db\<close>.\<close>

record config =
  requestTimeout :: Duration
  databaseTimeout :: Duration

definition newline :: char where
  "newline = CHR 0x0A"

text \<open>\<open>log.Fatalln(a, b)\<close>: the operands separated by a space, a newline, exit status 1.\<close>

definition Sprintln2 :: "string \<Rightarrow> string \<Rightarrow> string" where
  "Sprintln2 a b = a @ '' '' @ b @ [newline]"

definition cotacao_columns :: "string list" where
  "cotacao_columns =
     [''code'', ''code_in'', ''name'', ''high'', ''low'', ''var_bid'', ''pct_change'', ''bid'',
      ''ask'', ''timestamp'', ''create_date'']"

definition create_cotacao :: statement where
  "create_cotacao = CreateTable True ''cotacao'' cotacao_columns"

definition insert_cotacao :: statement where
  "insert_cotacao = InsertInto ''cotacao'' cotacao_columns"

text \<open>
  \<open>startDatabase\<close>: \<open>Inl\<close> is the text of the \<open>log.Fatalln\<close> that ends the process,
  \<open>Inr\<close> the store once the table is there.
\<close>

definition startDatabase :: "go_error option \<Rightarrow> go_error option \<Rightarrow> store \<Rightarrow> string + store" where
  "startDatabase open_fault exec_fault s =
     (case open_fault of
        Some err \<Rightarrow> Inl (Sprintln2 ''Falhou abrir o banco de dados:'' (err_text err))
      | None \<Rightarrow>
          (case db_Exec exec_fault create_cotacao s of
             Inl err \<Rightarrow> Inl (Sprintln2 ''Falha ao criar tabela de cotacao:'' (err_text err))
           | Inr s' \<Rightarrow> Inr s'))"

text \<open>
  What one request meets: the context of the inbound request, the clock at the two
  places where a timeout is derived, and the outcome of each call that leaves the
  process.
\<close>

record request_env =
  r_Context :: Context
  now_handler :: Time
  newRequest_fault :: "go_error option"
  do_outcome :: "go_error + Response"
  prepare_fault :: "go_error option"
  now_save :: Time
  exec_fault :: "go_error option"
  write_fault :: "nat \<Rightarrow> go_error option"

text \<open>The calls that leave the handler, in order, each with the context it is bound to.\<close>

datatype call =
    HttpDo string string Context
  | DbPrepare statement
  | DbExecContext Context statement "string list"

record handler_state =
  w :: ResponseWriter
  db :: store
  logs :: "string list"
  calls :: "call list"

definition cotacaoURL :: string where
  "cotacaoURL = ''https://economia.awesomeapi.com.br/json/last/USD-BRL''"

definition StatusOK :: int where
  "StatusOK = 200"

definition StatusInternalServerError :: int where
  "StatusInternalServerError = 500"

definition sendMsgError :: "request_env \<Rightarrow> string \<Rightarrow> int \<Rightarrow> handler_state \<Rightarrow> handler_state" where
  "sendMsgError env msg statusCode st =
     (let st1 = st\<lparr>logs := logs st @ [msg]\<rparr>;
          rw1 = WriteHeader statusCode (w st1);
          rw2 = snd (Encode (write_fault env)
                       (encode_ErrorResponse \<lparr>Error = msg, StatusCode = statusCode\<rparr>) rw1)
      in st1\<lparr>w := rw2\<rparr>)"

definition saveQuotationToDB ::
  "config \<Rightarrow> request_env \<Rightarrow> Context \<Rightarrow> USDBRLQuotation \<Rightarrow> handler_state
     \<Rightarrow> go_error option \<times> handler_state" where
  "saveQuotationToDB cfg env ctx cotacao st =
     (let st1 = st\<lparr>calls := calls st @ [DbPrepare insert_cotacao]\<rparr>
      in case db_Prepare (prepare_fault env) insert_cotacao (db st1) of
           Inl err \<Rightarrow> (Some (Errorf_w ''falha ao preparar query. '' err), st1)
         | Inr stmt \<Rightarrow>
             (let dbCtx = WithTimeout (now_save env) ctx (databaseTimeout cfg);
                  args =
                    [Code (Quotation cotacao), CodeIn (Quotation cotacao),
                     Name (Quotation cotacao), High (Quotation cotacao),
                     Low (Quotation cotacao), VarBid (Quotation cotacao),
                     PctChange (Quotation cotacao), Quotation.Bid (Quotation cotacao),
                     Ask (Quotation cotacao), Timestamp (Quotation cotacao),
                     CreateDate (Quotation cotacao)];
                  st2 = st1\<lparr>calls := calls st1 @ [DbExecContext dbCtx stmt args]\<rparr>
              in case stmt_ExecContext (now_save env) (exec_fault env) dbCtx stmt args (db st2) of
                   Inl err \<Rightarrow> (Some (Errorf_w ''falha ao executar query. '' err), st2)
                 | Inr s' \<Rightarrow> (None, st2\<lparr>db := s'\<rparr>)))"

text \<open>
  \<open>cotacaoHandler\<close>, on the fresh response writer the server hands it and the store as
  it is when the request arrives. The messages are the string literals of the source
  file, byte for byte (question marks included); \<open>fmt.Sprint\<close> puts no space between a
  string operand and the next one.
\<close>

definition cotacaoHandler :: "config \<Rightarrow> request_env \<Rightarrow> store \<Rightarrow> handler_state" where
  "cotacaoHandler cfg env s =
     (let st0 = \<lparr>w = new_ResponseWriter, db = s, logs = [''GET /cotacao''], calls = []\<rparr>;
          ctx = WithTimeout (now_handler env) (r_Context env) (requestTimeout cfg)
      in case newRequest_fault env of
           Some err \<Rightarrow>
             sendMsgError env
               (''GET /cotacao - falha ao criar requisi????o: '' @ err_text err)
               StatusInternalServerError st0
         | None \<Rightarrow>
             (let st1 = st0\<lparr>calls := calls st0 @ [HttpDo ''GET'' cotacaoURL ctx]\<rparr>
              in case DefaultClient_Do (now_handler env) (do_outcome env) ctx of
                   Inl err \<Rightarrow>
                     (let msg =
                            (if err_is_deadline err
                             then ''requisi????o ultrapassou o tempo m??ximo de ''
                                    @ Duration_String (requestTimeout cfg)
                             else ''GET /cotacao - requisi????o falhou: '' @ err_text err)
                      in sendMsgError env msg StatusInternalServerError st1)
                 | Inr resp \<Rightarrow>
                     (case Decode ''main.USDBRLQuotation'' USDBRLQuotation_fields
                             (resp_Body resp) zero_USDBRLQuotation of
                        Inl err \<Rightarrow>
                          sendMsgError env
                            (''GET /cotacao - falha ao decodificar corpo da requisi????o: ''
                               @ err_text err)
                            StatusInternalServerError st1
                      | Inr cotacao \<Rightarrow>
                          (case saveQuotationToDB cfg env (r_Context env) cotacao st1 of
                             (Some err, st2) \<Rightarrow>
                               sendMsgError env
                                 (''GET /cotacao - falha ao salvar dados no banco: ''
                                    @ err_text err)
                                 StatusInternalServerError st2
                           | (None, st2) \<Rightarrow>
                               (let rw1 = WriteHeader StatusOK (w st2)
                                in case Encode (write_fault env)
                                          (encode_QuotationResponse
                                             \<lparr>QuotationResponse.Bid =
                                                Quotation.Bid (Quotation cotacao)\<rparr>) rw1 of
                                     (Some err, rw2) \<Rightarrow>
                                       sendMsgError env
                                         (''GET /cotacao - falha ao enviar requisi????o: ''
                                            @ err_text err)
                                         StatusInternalServerError (st2\<lparr>w := rw2\<rparr>)
                                   | (None, rw2) \<Rightarrow> st2\<lparr>w := rw2\<rparr>)))))"

section \<open>The client (\<open>client/client.go\<close>)\<close>

text \<open>The letters of the client's messages that are not ASCII, as their UTF-8 bytes.\<close>

definition c_cedilla :: string where
  "c_cedilla = [CHR 0xC3, CHR 0xA7]"

definition a_tilde :: string where
  "a_tilde = [CHR 0xC3, CHR 0xA3]"

definition a_acute :: string where
  "a_acute = [CHR 0xC3, CHR 0xA1]"

definition o_acute :: string where
  "o_acute = [CHR 0xC3, CHR 0xB3]"

definition fileName :: string where
  "fileName = ''cotacao.txt''"

text \<open>
  The files of the working directory, by name. \<open>os.OpenFile\<close> with the flags the
  program can pass: a missing file is created only under \<open>O_CREATE\<close>, an existing one
  is emptied only under \<open>O_TRUNC\<close>; a write through a handle opened with \<open>O_APPEND\<close>
  goes to the end of the file, otherwise to the handle's offset.
\<close>

type_synonym filesystem = "(string \<times> string) list"

datatype open_flag = O_RDWR | O_APPEND | O_CREATE | O_TRUNC

record File =
  f_name :: string
  f_append :: bool
  f_offset :: nat

definition fs_put :: "string \<Rightarrow> string \<Rightarrow> filesystem \<Rightarrow> filesystem" where
  "fs_put name content fs =
     (case map_of fs name of
        None \<Rightarrow> fs @ [(name, content)]
      | Some old \<Rightarrow> map (\<lambda>(n, c). if n = name then (n, content) else (n, c)) fs)"

definition OpenFile ::
  "go_error option \<Rightarrow> string \<Rightarrow> open_flag list \<Rightarrow> filesystem \<Rightarrow> go_error + File \<times> filesystem" where
  "OpenFile fault name flags fs =
     (let file = \<lparr>f_name = name, f_append = (O_APPEND \<in> set flags), f_offset = 0\<rparr>
      in case fault of
           Some e \<Rightarrow> Inl e
         | None \<Rightarrow>
             (case map_of fs name of
                None \<Rightarrow>
                  if O_CREATE \<in> set flags then Inr (file, fs_put name [] fs)
                  else Inl (GoError (''open '' @ name @ '': no such file or directory'') False)
              | Some old \<Rightarrow>
                  if O_TRUNC \<in> set flags then Inr (file, fs_put name [] fs)
                  else Inr (file, fs)))"

definition file_Write ::
  "go_error option \<Rightarrow> File \<Rightarrow> string \<Rightarrow> filesystem \<Rightarrow> go_error + filesystem" where
  "file_Write fault file data fs =
     (case fault of
        Some e \<Rightarrow> Inl e
      | None \<Rightarrow>
          (case map_of fs (f_name file) of
             None \<Rightarrow> Inl (GoError (''write '' @ f_name file @ '': file already closed'') False)
           | Some old \<Rightarrow>
               if f_append file then Inr (fs_put (f_name file) (old @ data) fs)
               else Inr (fs_put (f_name file)
                           (take (f_offset file) old @ data
                              @ drop (f_offset file + length data) old) fs)))"

text \<open>
  What one run of the client meets. The lines of the \<open>log\<close> package go to the error
  stream (without the date and time it puts in front); \<open>exit_status\<close> is 1 after a
  \<open>log.Fatal\<close> call and 0 when \<open>main\<close> returns; \<open>sent\<close> lists the requests made.
\<close>

record client_env =
  cl_now :: Time
  cl_newRequest_fault :: "go_error option"
  cl_do_outcome :: "go_error + Response"
  cl_open_fault :: "go_error option"
  cl_write_fault :: "go_error option"

record client_state =
  exit_status :: int
  files :: filesystem
  stderr :: "string list"
  sent :: "call list"

definition Fatal :: "string \<Rightarrow> client_state \<Rightarrow> client_state" where
  "Fatal text st = st\<lparr>exit_status := 1, stderr := stderr st @ [text]\<rparr>"

definition saveQuotationToFile :: "client_env \<Rightarrow> go_error + json \<Rightarrow> client_state \<Rightarrow> client_state" where
  "saveQuotationToFile env r st =
     (case Decode ''main.QuotationResponse'' QuotationResponse_fields r zero_QuotationResponse of
        Inl err \<Rightarrow>
          Fatal (Sprintln2 (''Falha ao decodificar corpo da requisi'' @ c_cedilla @ a_tilde @ ''o:'')
                   (err_text err)) st
      | Inr cotacao \<Rightarrow>
          (case OpenFile (cl_open_fault env) fileName [O_APPEND, O_CREATE, O_RDWR] (files st) of
             Inl err \<Rightarrow> Fatal (err_text err @ [newline]) st
           | Inr (file, fs1) \<Rightarrow>
               (let msg = ''D'' @ o_acute @ ''lar: '' @ QuotationResponse.Bid cotacao
                in case file_Write (cl_write_fault env) file (msg @ [newline]) fs1 of
                     Inl err \<Rightarrow>
                       Fatal (Sprintln2 ''Falha ao salvar dados em disco:'' (err_text err))
                         (st\<lparr>files := fs1\<rparr>)
                   | Inr fs2 \<Rightarrow>
                       st\<lparr>files := fs2,
                          stderr := stderr st @ [Sprintln2 ''Registro salvo em disco.'' msg]\<rparr>)))"

definition handleError :: "go_error + json \<Rightarrow> client_state \<Rightarrow> client_state" where
  "handleError r st =
     (case Decode ''main.ErrorResponse'' ErrorResponse_fields r zero_ErrorResponse of
        Inl err \<Rightarrow>
          Fatal (Sprintln2 (''Falha ao decodificar corpo da requisi'' @ c_cedilla @ a_tilde @ ''o:'')
                   (err_text err)) st
      | Inr errResp \<Rightarrow>
          Fatal (''Ocorreu um erro: '' @ Error errResp @ [newline] @ ''C'' @ o_acute @ ''digo: ''
                   @ fmt_d (StatusCode errResp) @ [newline]) st)"

text \<open>\<open>makeRequest\<close>, which is all \<open>main\<close> does once the flag is parsed.\<close>

definition makeRequest :: "Duration \<Rightarrow> client_env \<Rightarrow> filesystem \<Rightarrow> client_state" where
  "makeRequest timeout env fs =
     (let st0 = \<lparr>exit_status = 0, files = fs, stderr = [], sent = []\<rparr>;
          ctx = WithTimeout (cl_now env) Background timeout
      in case cl_newRequest_fault env of
           Some err \<Rightarrow>
             Fatal (Sprintln2 (''Falha ao criar requisi'' @ c_cedilla @ a_tilde @ ''o:'')
                      (err_text err)) st0
         | None \<Rightarrow>
             (let st1 = st0\<lparr>sent := sent st0 @ [HttpDo ''GET'' ''http://localhost:8080/cotacao'' ctx]\<rparr>
              in case DefaultClient_Do (cl_now env) (cl_do_outcome env) ctx of
                   Inl err \<Rightarrow>
                     (let msg =
                            (if err_is_deadline err
                             then ''Requisi'' @ c_cedilla @ a_tilde @ ''o ultrapassou o tempo m''
                                    @ a_acute @ ''ximo de '' @ Duration_String timeout
                             else ''Requisi'' @ c_cedilla @ a_tilde @ ''o falhou: '' @ err_text err)
                      in Fatal (msg @ [newline]) st1)
                 | Inr resp \<Rightarrow>
                     (if resp_StatusCode resp = StatusOK
                      then saveQuotationToFile env (resp_Body resp) st1
                      else handleError (resp_Body resp) st1)))"

section \<open>Observations of a run\<close>

text \<open>The context the outbound request is bound to, and what the outbound call returns.\<close>

definition request_ctx :: "config \<Rightarrow> request_env \<Rightarrow> Context" where
  "request_ctx cfg env = WithTimeout (now_handler env) (r_Context env) (requestTimeout cfg)"

definition fetch :: "config \<Rightarrow> request_env \<Rightarrow> go_error + Response" where
  "fetch cfg env = DefaultClient_Do (now_handler env) (do_outcome env) (request_ctx cfg env)"

text \<open>What decoding the upstream body into a \<open>USDBRLQuotation\<close> returns.\<close>

definition decodeBody :: "Response \<Rightarrow> go_error + USDBRLQuotation" where
  "decodeBody resp =
     Decode ''main.USDBRLQuotation'' USDBRLQuotation_fields (resp_Body resp) zero_USDBRLQuotation"

text \<open>The context and the arguments of the insert.\<close>

definition db_ctx :: "config \<Rightarrow> request_env \<Rightarrow> Context" where
  "db_ctx cfg env = WithTimeout (now_save env) (r_Context env) (databaseTimeout cfg)"

definition insert_args :: "USDBRLQuotation \<Rightarrow> string list" where
  "insert_args cotacao =
     [Code (Quotation cotacao), CodeIn (Quotation cotacao), Name (Quotation cotacao),
      High (Quotation cotacao), Low (Quotation cotacao), VarBid (Quotation cotacao),
      PctChange (Quotation cotacao), Quotation.Bid (Quotation cotacao),
      Ask (Quotation cotacao), Timestamp (Quotation cotacao), CreateDate (Quotation cotacao)]"

text \<open>
  What \<open>saveQuotationToDB\<close> returns when the handler calls it on the store \<open>s\<close>: its
  error, or the store after the insert.
\<close>

definition save_outcome :: "config \<Rightarrow> request_env \<Rightarrow> USDBRLQuotation \<Rightarrow> store \<Rightarrow> go_error + store" where
  "save_outcome cfg env cotacao s =
     (case saveQuotationToDB cfg env (r_Context env) cotacao
             \<lparr>w = new_ResponseWriter, db = s, logs = [], calls = []\<rparr> of
        (Some err, st) \<Rightarrow> Inl err
      | (None, st) \<Rightarrow> Inr (db st))"

definition stored_rows :: "store \<Rightarrow> (string \<times> string) list list" where
  "stored_rows s = (case map_of s ''cotacao'' of None \<Rightarrow> [] | Some t \<Rightarrow> rows t)"

definition is_db_call :: "call \<Rightarrow> bool" where
  "is_db_call c = (case c of HttpDo m u ctx \<Rightarrow> False | _ \<Rightarrow> True)"

text \<open>The deadline that results from a parent context and a timeout started at \<open>now\<close>.\<close>

definition min_deadline :: "Time option \<Rightarrow> Time \<Rightarrow> Duration \<Rightarrow> Time" where
  "min_deadline parent now timeout =
     (case parent of None \<Rightarrow> now + timeout | Some d \<Rightarrow> min d (now + timeout))"

text \<open>The two documents the handler sends.\<close>

definition error_doc :: "string \<Rightarrow> int \<Rightarrow> json" where
  "error_doc msg code = encode_ErrorResponse \<lparr>Error = msg, StatusCode = code\<rparr>"

definition bid_doc :: "string \<Rightarrow> json" where
  "bid_doc bid = encode_QuotationResponse \<lparr>QuotationResponse.Bid = bid\<rparr>"

text \<open>What the client's call returns, and what its two decoders return.\<close>

definition client_fetch :: "Duration \<Rightarrow> client_env \<Rightarrow> go_error + Response" where
  "client_fetch timeout env =
     DefaultClient_Do (cl_now env) (cl_do_outcome env) (WithTimeout (cl_now env) Background timeout)"

definition decodeQuotationResponse :: "Response \<Rightarrow> go_error + QuotationResponse" where
  "decodeQuotationResponse resp =
     Decode ''main.QuotationResponse'' QuotationResponse_fields (resp_Body resp)
       zero_QuotationResponse"

definition decodeErrorResponse :: "Response \<Rightarrow> go_error + ErrorResponse" where
  "decodeErrorResponse resp =
     Decode ''main.ErrorResponse'' ErrorResponse_fields (resp_Body resp) zero_ErrorResponse"

definition file_content :: "filesystem \<Rightarrow> string \<Rightarrow> string" where
  "file_content fs name = (case map_of fs name of None \<Rightarrow> [] | Some c \<Rightarrow> c)"

section \<open>A concrete run\<close>

text \<open>
  The default flags (\<open>-rt 200ms\<close>, \<open>-dbt 10ms\<close>), a store in which the table exists, the
  upstream document of the specification's scenario, and a request that meets no fault:
  no deadline on the inbound context, the upstream answer decoded 150 ms after the
  request arrived.
\<close>

definition default_config :: config where
  "default_config = \<lparr>requestTimeout = 200000000, databaseTimeout = 10000000\<rparr>"

definition fresh_store :: store where
  "fresh_store = [(''cotacao'', \<lparr>columns = cotacao_columns, rows = []\<rparr>)]"

definition scenario_doc :: json where
  "scenario_doc =
     JObject [(''USDBRL'', JObject
       [(''code'', JString ''USD''), (''codein'', JString ''BRL''),
        (''name'', JString (''D'' @ o_acute @ ''lar/Real'')),
        (''high'', JString ''5.50''), (''low'', JString ''5.40''),
        (''varBid'', JString ''0.01''), (''pctChange'', JString ''0.18''),
        (''bid'', JString ''5.45''), (''ask'', JString ''5.46''),
        (''timestamp'', JString ''1700000000''),
        (''create_date'', JString ''2023-11-14 10:00:00'')])]"

definition quiet_env :: "json \<Rightarrow> request_env" where
  "quiet_env doc =
     \<lparr>r_Context = Background, now_handler = 0, newRequest_fault = None,
      do_outcome = Inr \<lparr>resp_StatusCode = 200, resp_Body = Inr doc\<rparr>,
      prepare_fault = None, now_save = 150000000, exec_fault = None,
      write_fault = (\<lambda>n. None)\<rparr>"

definition quiet_client_env :: "int \<Rightarrow> json \<Rightarrow> client_env" where
  "quiet_client_env code doc =
     \<lparr>cl_now = 0, cl_newRequest_fault = None,
      cl_do_outcome = Inr \<lparr>resp_StatusCode = code, resp_Body = Inr doc\<rparr>,
      cl_open_fault = None, cl_write_fault = None\<rparr>"

definition scenario_response :: Response where
  "scenario_response = \<lparr>resp_StatusCode = 200, resp_Body = Inr scenario_doc\<rparr>"

definition scenario_quotation :: USDBRLQuotation where
  "scenario_quotation =
     \<lparr>Quotation =
        \<lparr>Code = ''USD'', CodeIn = ''BRL'', Name = ''D'' @ o_acute @ ''lar/Real'',
         High = ''5.50'', Low = ''5.40'', VarBid = ''0.01'', PctChange = ''0.18'',
         Quotation.Bid = ''5.45'', Ask = ''5.46'', Timestamp = ''1700000000'',
         CreateDate = ''2023-11-14 10:00:00''\<rparr>\<rparr>"

definition scenario_store :: store where
  "scenario_store =
     [(''cotacao'', \<lparr>columns = cotacao_columns,
         rows = [zip cotacao_columns (insert_args scenario_quotation)]\<rparr>)]"

text \<open>Requests that meet one fault each.\<close>

definition timeout_env :: request_env where
  "timeout_env = (quiet_env scenario_doc)\<lparr>do_outcome := Inl DeadlineExceeded\<rparr>"

definition refused_env :: request_env where
  "refused_env =
     (quiet_env scenario_doc)\<lparr>do_outcome := Inl (GoError ''dial tcp: connection refused'' False)\<rparr>"

definition slow_db_env :: request_env where
  "slow_db_env = (quiet_env scenario_doc)\<lparr>exec_fault := Some DeadlineExceeded\<rparr>"

definition broken_reply_env :: request_env where
  "broken_reply_env =
     (quiet_env scenario_doc)
       \<lparr>write_fault := (\<lambda>n. if n = 0 then Some (GoError ''write: broken pipe'' False) else None)\<rparr>"

text \<open>A configuration whose database timeout (1 s) is longer than its request timeout.\<close>

definition long_db_config :: config where
  "long_db_config = \<lparr>requestTimeout = 200000000, databaseTimeout = 1000000000\<rparr>"

text \<open>The reply of the server on the timeout path, as the client receives it.\<close>

definition timeout_reply :: Response where
  "timeout_reply =
     \<lparr>resp_StatusCode = 500,
      resp_Body = Inr (error_doc ''requisi????o ultrapassou o tempo m??ximo de 200ms'' 500)\<rparr>"

definition timeout_reply_env :: client_env where
  "timeout_reply_env =
     \<lparr>cl_now = 0, cl_newRequest_fault = None, cl_do_outcome = Inr timeout_reply,
      cl_open_fault = None, cl_write_fault = None\<rparr>"

definition bid_reply :: Response where
  "bid_reply = \<lparr>resp_StatusCode = 200, resp_Body = Inr (bid_doc ''5.45'')\<rparr>"

definition bid_reply_env :: client_env where
  "bid_reply_env =
     \<lparr>cl_now = 0, cl_newRequest_fault = None, cl_do_outcome = Inr bid_reply,
      cl_open_fault = None, cl_write_fault = None\<rparr>"

text \<open>A working directory in which the file already holds a line.\<close>

definition old_files :: filesystem where
  "old_files = [(''cotacao.txt'', ''D'' @ o_acute @ ''lar: 5.40'' @ [newline])]"

subsection \<open>Shapes of upstream documents\<close>

text \<open>A key is a field key of a struct type when it matches one of its field names.\<close>

definition is_field_key :: "'a field list \<Rightarrow> string \<Rightarrow> bool" where
  "is_field_key fs k = list_ex (\<lambda>f. keyMatches (fst f) k) fs"

text \<open>
  A document lacks the quotation when it is \<open>null\<close> or an object in which every member
  whose key matches \<open>USDBRL\<close> is \<open>null\<close> or an object without any key of a \<open>Quotation\<close>
  field: \<open>{}\<close>, \<open>{"USDBRL": {}}\<close>, \<open>{"other": 1}\<close>.
\<close>

fun lacks_fields :: "json \<Rightarrow> bool" where
  "lacks_fields JNull = True"
| "lacks_fields (JObject ms) = list_all (\<lambda>m. \<not> is_field_key Quotation_fields (fst m)) ms"
| "lacks_fields _ = False"

fun lacks_quotation :: "json \<Rightarrow> bool" where
  "lacks_quotation JNull = True"
| "lacks_quotation (JObject ms) =
     list_all (\<lambda>m. keyMatches ''USDBRL'' (fst m) \<longrightarrow> lacks_fields (snd m)) ms"
| "lacks_quotation _ = False"

text \<open>
  A document fits the struct when it is \<open>null\<close> or an object in which every member whose
  key matches \<open>USDBRL\<close> is \<open>null\<close> or an object whose members with the key of a
  \<open>Quotation\<close> field hold a string or \<open>null\<close>.
\<close>

fun fits_string :: "json \<Rightarrow> bool" where
  "fits_string JNull = True"
| "fits_string (JString s) = True"
| "fits_string _ = False"

fun fits_Quotation :: "json \<Rightarrow> bool" where
  "fits_Quotation JNull = True"
| "fits_Quotation (JObject ms) =
     list_all (\<lambda>m. is_field_key Quotation_fields (fst m) \<longrightarrow> fits_string (snd m)) ms"
| "fits_Quotation _ = False"

fun fits_USDBRLQuotation :: "json \<Rightarrow> bool" where
  "fits_USDBRLQuotation JNull = True"
| "fits_USDBRLQuotation (JObject ms) =
     list_all (\<lambda>m. keyMatches ''USDBRL'' (fst m) \<longrightarrow> fits_Quotation (snd m)) ms"
| "fits_USDBRLQuotation _ = False"

text \<open>
  The string that the members of a \<open>USDBRL\<close> object give for \<open>bid\<close>: the value of the
  last member whose key matches \<open>bid\<close> and holds a string, or the string held before.
\<close>

fun document_bid :: "(string \<times> json) list \<Rightarrow> string \<Rightarrow> string" where
  "document_bid [] cur = cur"
| "document_bid ((k, v) # ms) cur =
     (if keyMatches ''bid'' k then (case v of JString s \<Rightarrow> document_bid ms s | _ \<Rightarrow> document_bid ms cur)
      else document_bid ms cur)"

subsection \<open>Further documents\<close>

text \<open>Well-formed documents on which decoding fails, and the empty object.\<close>

definition array_doc :: json where
  "array_doc = JArray []"

definition number_bid_doc :: json where
  "number_bid_doc = JObject [(''USDBRL'', JObject [(''bid'', JReal ''5.45'')])]"

definition empty_doc :: json where
  "empty_doc = JObject []"

definition empty_row_store :: store where
  "empty_row_store =
     [(''cotacao'', \<lparr>columns = cotacao_columns, rows = [map (\<lambda>c. (c, [])) cotacao_columns]\<rparr>)]"

section \<open>Properties of the server\<close>

subsection \<open>The paths through \<open>cotacaoHandler\<close>\<close>

lemma deadline_WithTimeout:
  "deadline (WithTimeout now parent timeout) = Some (min_deadline (deadline parent) now timeout)"
  by (simp add: WithTimeout_def WithDeadline_def min_deadline_def min_def split: option.splits)

lemma sendMsgError_keeps:
  "db (sendMsgError env msg code st) = db st"
  "calls (sendMsgError env msg code st) = calls st"
  "logs (sendMsgError env msg code st) = logs st @ [msg]"
  by (simp_all add: sendMsgError_def Let_def)

lemma sendMsgError_fresh:
  assumes "\<not> wroteHeader (w st)" and "nwrites (w st) = 0" and "body (w st) = []"
  shows "status (w (sendMsgError env msg code st)) = code"
    and "wroteHeader (w (sendMsgError env msg code st))"
    and "body (w (sendMsgError env msg code st)) =
           (case write_fault env 0 of None \<Rightarrow> [error_doc msg code] | Some e \<Rightarrow> [])"
  using assms
  by (simp_all add: sendMsgError_def Let_def WriteHeader_def Encode_def error_doc_def
        split: option.splits)

lemma saveQuotationToDB_outcome:
  "saveQuotationToDB cfg env (r_Context env) cotacao st = (r, st') \<Longrightarrow>
     save_outcome cfg env cotacao (db st) = (case r of Some err \<Rightarrow> Inl err | None \<Rightarrow> Inr (db st'))
     \<and> w st' = w st \<and> logs st' = logs st"
  by (auto simp: saveQuotationToDB_def save_outcome_def Let_def split: sum.splits option.splits)

lemma handler_fetch_failed:
  assumes "newRequest_fault env = None" and "fetch cfg env = Inl err"
  shows "cotacaoHandler cfg env s =
           sendMsgError env
             (if err_is_deadline err
              then ''requisi????o ultrapassou o tempo m??ximo de '' @ Duration_String (requestTimeout cfg)
              else ''GET /cotacao - requisi????o falhou: '' @ err_text err)
             500
             \<lparr>w = new_ResponseWriter, db = s, logs = [''GET /cotacao''],
              calls = [HttpDo ''GET'' cotacaoURL (request_ctx cfg env)]\<rparr>"
  using assms
  by (simp add: cotacaoHandler_def fetch_def request_ctx_def Let_def StatusInternalServerError_def)


lemma save_outcome_eq:
  "save_outcome cfg env cotacao s =
     (case db_Prepare (prepare_fault env) insert_cotacao s of
        Inl err \<Rightarrow> Inl (Errorf_w ''falha ao preparar query. '' err)
      | Inr stmt \<Rightarrow>
          (case stmt_ExecContext (now_save env) (exec_fault env) (db_ctx cfg env) stmt
                  (insert_args cotacao) s of
             Inl err \<Rightarrow> Inl (Errorf_w ''falha ao executar query. '' err)
           | Inr s' \<Rightarrow> Inr s'))"
  by (simp add: save_outcome_def saveQuotationToDB_def Let_def db_ctx_def insert_args_def
        split: sum.splits)

lemma db_Prepare_same: "db_Prepare fault stmt s = Inr stmt' \<Longrightarrow> stmt' = stmt"
  by (auto simp: db_Prepare_def split: option.splits)

lemma save_failed:
  assumes "save_outcome cfg env cotacao (db st) = Inl err"
  shows "\<exists>st'. saveQuotationToDB cfg env (r_Context env) cotacao st = (Some err, st')
           \<and> w st' = w st \<and> db st' = db st \<and> logs st' = logs st
           \<and> (calls st' = calls st @ [DbPrepare insert_cotacao]
               \<or> calls st' = calls st @ [DbPrepare insert_cotacao,
                    DbExecContext (db_ctx cfg env) insert_cotacao (insert_args cotacao)])"
  using assms
  by (auto simp: save_outcome_def saveQuotationToDB_def Let_def db_ctx_def insert_args_def
        split: sum.splits dest: db_Prepare_same)

lemma save_ok:
  assumes "save_outcome cfg env cotacao (db st) = Inr s'"
  shows "saveQuotationToDB cfg env (r_Context env) cotacao st =
           (None, st\<lparr>calls := calls st @ [DbPrepare insert_cotacao,
                        DbExecContext (db_ctx cfg env) insert_cotacao (insert_args cotacao)],
                     db := s'\<rparr>)"
  using assms
  by (auto simp: save_outcome_def saveQuotationToDB_def Let_def db_ctx_def insert_args_def
        split: sum.splits dest: db_Prepare_same)

lemma map_of_map_upd:
  "map_of (map (\<lambda>(n, t). if n = name then (n, f t) else (n, t)) s) name = map_option f (map_of s name)"
  by (induction s) auto

lemma save_ok_rows:
  assumes "save_outcome cfg env cotacao s = Inr s'"
  shows "stored_rows s' = stored_rows s @ [zip cotacao_columns (insert_args cotacao)]"
proof -
  from assms obtain t where t: "map_of s ''cotacao'' = Some t"
    and s': "sqlite_step insert_cotacao (insert_args cotacao) s = Inr s'"
    by (auto simp: save_outcome_eq db_Prepare_def stmt_ExecContext_def sqlite_prepare_def
          insert_cotacao_def split: sum.splits option.splits if_splits)
  from s' t have "s' = map (\<lambda>(n, t'). if n = ''cotacao''
        then (n, t'\<lparr>rows := rows t' @ [zip cotacao_columns (insert_args cotacao)]\<rparr>)
        else (n, t')) s"
    by (simp add: sqlite_step_def insert_cotacao_def)
  then have "map_of s' ''cotacao'' =
      map_option (\<lambda>t'. t'\<lparr>rows := rows t' @ [zip cotacao_columns (insert_args cotacao)]\<rparr>)
        (map_of s ''cotacao'')"
    using map_of_map_upd [of "''cotacao''"
        "\<lambda>t'. t'\<lparr>rows := rows t' @ [zip cotacao_columns (insert_args cotacao)]\<rparr>" s]
    by simp
  with t show ?thesis
    by (simp add: stored_rows_def)
qed

lemma bid_column:
  "map_of (zip cotacao_columns (insert_args cotacao)) ''bid'' = Some (Quotation.Bid (Quotation cotacao))"
  by (simp add: cotacao_columns_def insert_args_def)

lemma handler_decode_failed:
  assumes "newRequest_fault env = None" and "fetch cfg env = Inr resp"
    and "decodeBody resp = Inl err"
  shows "cotacaoHandler cfg env s =
           sendMsgError env
             (''GET /cotacao - falha ao decodificar corpo da requisi????o: '' @ err_text err) 500
             \<lparr>w = new_ResponseWriter, db = s, logs = [''GET /cotacao''],
              calls = [HttpDo ''GET'' cotacaoURL (request_ctx cfg env)]\<rparr>"
  using assms
  by (simp add: cotacaoHandler_def fetch_def request_ctx_def decodeBody_def Let_def
        StatusInternalServerError_def)

lemma handler_save_failed:
  assumes "newRequest_fault env = None" and "fetch cfg env = Inr resp"
    and "decodeBody resp = Inr cotacao" and "save_outcome cfg env cotacao s = Inl err"
  shows "\<exists>st. cotacaoHandler cfg env s =
           sendMsgError env
             (''GET /cotacao - falha ao salvar dados no banco: '' @ err_text err) 500 st
         \<and> w st = new_ResponseWriter \<and> db st = s"
proof -
  let ?st1 = "\<lparr>w = new_ResponseWriter, db = s, logs = [''GET /cotacao''],
              calls = [HttpDo ''GET'' cotacaoURL (request_ctx cfg env)]\<rparr>"
  from assms(4) have "save_outcome cfg env cotacao (db ?st1) = Inl err" by simp
  from save_failed [OF this] obtain st' where
    st': "saveQuotationToDB cfg env (r_Context env) cotacao ?st1 = (Some err, st')"
      "w st' = w ?st1" "db st' = db ?st1"
    by blast
  from assms(1-3) st'(1) [unfolded request_ctx_def] have
    "cotacaoHandler cfg env s =
       sendMsgError env (''GET /cotacao - falha ao salvar dados no banco: '' @ err_text err) 500 st'"
    by (simp add: cotacaoHandler_def fetch_def request_ctx_def decodeBody_def Let_def
        StatusInternalServerError_def)
  with st'(2,3) show ?thesis
    by auto
qed

lemma handler_saved:
  assumes "newRequest_fault env = None" and "fetch cfg env = Inr resp"
    and "decodeBody resp = Inr cotacao" and "save_outcome cfg env cotacao s = Inr s'"
  shows "cotacaoHandler cfg env s =
     (let st2 = \<lparr>w = new_ResponseWriter, db = s', logs = [''GET /cotacao''],
                 calls = [HttpDo ''GET'' cotacaoURL (request_ctx cfg env),
                          DbPrepare insert_cotacao,
                          DbExecContext (db_ctx cfg env) insert_cotacao (insert_args cotacao)]\<rparr>
      in case Encode (write_fault env) (bid_doc (Quotation.Bid (Quotation cotacao)))
                (WriteHeader 200 new_ResponseWriter) of
           (Some err, rw2) \<Rightarrow>
             sendMsgError env (''GET /cotacao - falha ao enviar requisi????o: '' @ err_text err)
               500 (st2\<lparr>w := rw2\<rparr>)
         | (None, rw2) \<Rightarrow> st2\<lparr>w := rw2\<rparr>)"
proof -
  let ?st1 = "\<lparr>w = new_ResponseWriter, db = s, logs = [''GET /cotacao''],
              calls = [HttpDo ''GET'' cotacaoURL (request_ctx cfg env)]\<rparr>"
  from assms(4) have "save_outcome cfg env cotacao (db ?st1) = Inr s'" by simp
  note sv = save_ok [OF this, unfolded request_ctx_def]
  from assms(1-3) show ?thesis
    by (simp add: cotacaoHandler_def fetch_def request_ctx_def decodeBody_def Let_def sv
        StatusInternalServerError_def StatusOK_def bid_doc_def split: prod.splits option.splits)
qed


subsection \<open>The bid is stored and returned as decoded\<close>

text \<open>
  C1. When the outbound call returns a response, its body decodes into \<open>cotacao\<close> and
  \<open>saveQuotationToDB\<close> returns no error, the store after the request is the one the
  insert produced: one row more in \<open>cotacao\<close>, whose column \<open>bid\<close> holds exactly the
  decoded \<open>Bid\<close>. The status sent is 200 and, when the write of the reply succeeds, the
  body is the document \<open>{"bid": Bid}\<close> with the same string (when that write fails, the
  body is the error document, or nothing).
\<close>

theorem bid_stored_and_returned_unchanged:
  assumes "newRequest_fault env = None" and "fetch cfg env = Inr resp"
    and "decodeBody resp = Inr cotacao" and "save_outcome cfg env cotacao s = Inr s'"
  shows "db (cotacaoHandler cfg env s) = s'
       \<and> stored_rows s' = stored_rows s @ [zip cotacao_columns (insert_args cotacao)]
       \<and> map_of (last (stored_rows s')) ''bid'' = Some (Quotation.Bid (Quotation cotacao))
       \<and> status (w (cotacaoHandler cfg env s)) = 200
       \<and> body (w (cotacaoHandler cfg env s)) =
           (case write_fault env 0 of
              None \<Rightarrow> [bid_doc (Quotation.Bid (Quotation cotacao))]
            | Some err \<Rightarrow>
                (case write_fault env 1 of
                   None \<Rightarrow>
                     [error_doc (''GET /cotacao - falha ao enviar requisi????o: '' @ err_text err)
                        500]
                 | Some err' \<Rightarrow> []))"
proof -
  note h = handler_saved [OF assms]
  note rows = save_ok_rows [OF assms(4)]
  have "db (cotacaoHandler cfg env s) = s'"
    by (simp add: h Let_def sendMsgError_keeps split: prod.splits option.splits)
  moreover have "map_of (last (stored_rows s')) ''bid'' = Some (Quotation.Bid (Quotation cotacao))"
    by (simp add: rows bid_column)
  moreover have "status (w (cotacaoHandler cfg env s)) = 200"
    by (simp add: h Let_def sendMsgError_def Encode_def WriteHeader_def new_ResponseWriter_def
          split: prod.splits option.splits)
  moreover have "body (w (cotacaoHandler cfg env s)) =
      (case write_fault env 0 of
         None \<Rightarrow> [bid_doc (Quotation.Bid (Quotation cotacao))]
       | Some err \<Rightarrow>
           (case write_fault env 1 of
              None \<Rightarrow>
                [error_doc (''GET /cotacao - falha ao enviar requisi????o: '' @ err_text err) 500]
            | Some err' \<Rightarrow> []))"
    by (simp add: h Let_def sendMsgError_def Encode_def WriteHeader_def new_ResponseWriter_def
          error_doc_def split: option.splits)
  ultimately show ?thesis
    using rows by simp
qed

theorem bid_stored_and_returned_unchanged_witness:
  "newRequest_fault (quiet_env scenario_doc) = None
   \<and> fetch default_config (quiet_env scenario_doc) = Inr scenario_response
   \<and> decodeBody scenario_response = Inr scenario_quotation
   \<and> save_outcome default_config (quiet_env scenario_doc) scenario_quotation fresh_store
       = Inr scenario_store
   \<and> db (cotacaoHandler default_config (quiet_env scenario_doc) fresh_store) = scenario_store
   \<and> map_of (last (stored_rows scenario_store)) ''bid'' = Some ''5.45''
   \<and> status (w (cotacaoHandler default_config (quiet_env scenario_doc) fresh_store)) = 200
   \<and> body (w (cotacaoHandler default_config (quiet_env scenario_doc) fresh_store))
       = [JObject [(''bid'', JString ''5.45'')]]"
proof -
  have h1: "newRequest_fault (quiet_env scenario_doc) = None"
    by (simp add: quiet_env_def)
  have h2: "fetch default_config (quiet_env scenario_doc) = Inr scenario_response"
    by code_simp
  have h3: "decodeBody scenario_response = Inr scenario_quotation"
    by code_simp
  have h4: "save_outcome default_config (quiet_env scenario_doc) scenario_quotation fresh_store
      = Inr scenario_store"
    by code_simp
  have w0: "write_fault (quiet_env scenario_doc) 0 = None"
    by (simp add: quiet_env_def)
  have b: "Quotation.Bid (Quotation scenario_quotation) = ''5.45''"
    by (simp add: scenario_quotation_def)
  from bid_stored_and_returned_unchanged [OF h1 h2 h3 h4] w0 h1 h2 h3 h4 show ?thesis
    by (simp add: b bid_doc_def encode_QuotationResponse_def bid_column)
qed

lemma new_ResponseWriter_fresh:
  "\<not> wroteHeader new_ResponseWriter" "nwrites new_ResponseWriter = 0" "body new_ResponseWriter = []"
  by (simp_all add: new_ResponseWriter_def)

subsection \<open>Failure of the outbound call\<close>

text \<open>
  C3. When the outbound call fails, the status sent is 500 and the only call that left
  the handler is the GET: \<open>saveQuotationToDB\<close> is not invoked and the store is
  unchanged. For an error that is a deadline error the message is the fixed text
  followed by the configured request timeout as \<open>Duration.String\<close> prints it; for any
  other error it is a different text followed by the error. The body is the
  \<open>ErrorResponse\<close> with that message (nothing when the write of the body fails).
\<close>

theorem upstream_failure_reported_without_persistence:
  assumes "newRequest_fault env = None" and "fetch cfg env = Inl err"
  shows "status (w (cotacaoHandler cfg env s)) = 500
       \<and> (err_is_deadline err \<longrightarrow>
            body (w (cotacaoHandler cfg env s)) =
              (case write_fault env 0 of
                 None \<Rightarrow> [error_doc (''requisi????o ultrapassou o tempo m??ximo de ''
                                        @ Duration_String (requestTimeout cfg)) 500]
               | Some e \<Rightarrow> []))
       \<and> (\<not> err_is_deadline err \<longrightarrow>
            body (w (cotacaoHandler cfg env s)) =
              (case write_fault env 0 of
                 None \<Rightarrow> [error_doc (''GET /cotacao - requisi????o falhou: '' @ err_text err) 500]
               | Some e \<Rightarrow> []))
       \<and> ''requisi????o ultrapassou o tempo m??ximo de '' @ Duration_String (requestTimeout cfg)
           \<noteq> ''GET /cotacao - requisi????o falhou: '' @ err_text err
       \<and> calls (cotacaoHandler cfg env s) = [HttpDo ''GET'' cotacaoURL (request_ctx cfg env)]
       \<and> db (cotacaoHandler cfg env s) = s"
proof -
  note h = handler_fetch_failed [OF assms]
  show ?thesis
    by (simp add: h sendMsgError_keeps sendMsgError_fresh new_ResponseWriter_fresh
          split: option.splits)
qed

theorem upstream_failure_reported_without_persistence_witness:
  "newRequest_fault timeout_env = None
   \<and> fetch default_config timeout_env = Inl DeadlineExceeded
   \<and> err_is_deadline DeadlineExceeded
   \<and> status (w (cotacaoHandler default_config timeout_env fresh_store)) = 500
   \<and> body (w (cotacaoHandler default_config timeout_env fresh_store)) =
       [JObject [(''error'', JString ''requisi????o ultrapassou o tempo m??ximo de 200ms''),
                 (''status_code'', JInt 500)]]
   \<and> calls (cotacaoHandler default_config timeout_env fresh_store) =
       [HttpDo ''GET'' cotacaoURL \<lparr>deadline = Some 200000000\<rparr>]
   \<and> db (cotacaoHandler default_config timeout_env fresh_store) = fresh_store"
proof -
  have h1: "newRequest_fault timeout_env = None"
    by (simp add: timeout_env_def quiet_env_def)
  have h2: "fetch default_config timeout_env = Inl DeadlineExceeded"
    by code_simp
  have d: "err_is_deadline DeadlineExceeded"
    by (simp add: DeadlineExceeded_def)
  have w0: "write_fault timeout_env 0 = None"
    by (simp add: timeout_env_def quiet_env_def)
  have r: "requestTimeout default_config = 200000000"
    by (simp add: default_config_def)
  have t: "Duration_String 200000000 = ''200ms''"
    by code_simp
  have c: "request_ctx default_config timeout_env = \<lparr>deadline = Some 200000000\<rparr>"
    by code_simp
  from upstream_failure_reported_without_persistence [OF h1 h2, of fresh_store] h1 h2 d w0
  show ?thesis
    by (simp add: r t c error_doc_def encode_ErrorResponse_def)
qed

lemma Errorf_w_text: "err_text (Errorf_w p e) = p @ err_text e"
  by (simp add: Errorf_w_def)

lemma save_outcome_wrapped:
  "save_outcome cfg env cotacao s = Inl err \<Longrightarrow>
     (\<exists>cause. err = Errorf_w ''falha ao preparar query. '' cause
            \<or> err = Errorf_w ''falha ao executar query. '' cause)"
  by (auto simp: save_outcome_eq split: sum.splits)

lemma save_outcome_deadline:
  assumes "db_Prepare (prepare_fault env) insert_cotacao s = Inr stmt"
    and "expired (now_save env) (db_ctx cfg env) \<or> exec_fault env = Some DeadlineExceeded"
  shows "save_outcome cfg env cotacao s = Inl (Errorf_w ''falha ao executar query. '' DeadlineExceeded)"
  using assms by (auto simp: save_outcome_eq stmt_ExecContext_def)

subsection \<open>Failure of the insert\<close>

text \<open>
  C4. When \<open>saveQuotationToDB\<close> returns an error (a statement that cannot be prepared,
  a fault or a deadline that elapses while it runs), the status sent is 500, never 200,
  the body is the \<open>ErrorResponse\<close> whose message ends with the wrapped error (nothing
  when the write of the body fails), and the store is unchanged.
\<close>

theorem persistence_failure_reported:
  assumes "newRequest_fault env = None" and "fetch cfg env = Inr resp"
    and "decodeBody resp = Inr cotacao" and "save_outcome cfg env cotacao s = Inl err"
  shows "status (w (cotacaoHandler cfg env s)) = 500
       \<and> status (w (cotacaoHandler cfg env s)) \<noteq> 200
       \<and> body (w (cotacaoHandler cfg env s)) =
           (case write_fault env 0 of
              None \<Rightarrow> [error_doc (''GET /cotacao - falha ao salvar dados no banco: '' @ err_text err) 500]
            | Some e \<Rightarrow> [])
       \<and> (\<exists>cause. err_text err = ''falha ao preparar query. '' @ err_text cause
                 \<or> err_text err = ''falha ao executar query. '' @ err_text cause)
       \<and> db (cotacaoHandler cfg env s) = s"
proof -
  from handler_save_failed [OF assms] obtain st where
    h: "cotacaoHandler cfg env s =
          sendMsgError env (''GET /cotacao - falha ao salvar dados no banco: '' @ err_text err) 500 st"
    and st: "w st = new_ResponseWriter" "db st = s"
    by blast
  from save_outcome_wrapped [OF assms(4)] have
    "\<exists>cause. err_text err = ''falha ao preparar query. '' @ err_text cause
            \<or> err_text err = ''falha ao executar query. '' @ err_text cause"
    using Errorf_w_text by metis
  then show ?thesis
    by (simp add: h sendMsgError_keeps sendMsgError_fresh st new_ResponseWriter_fresh
          split: option.splits)
qed

theorem persistence_failure_reported_witness:
  "newRequest_fault slow_db_env = None
   \<and> fetch default_config slow_db_env = Inr scenario_response
   \<and> decodeBody scenario_response = Inr scenario_quotation
   \<and> save_outcome default_config slow_db_env scenario_quotation fresh_store
       = Inl (Errorf_w ''falha ao executar query. '' DeadlineExceeded)
   \<and> status (w (cotacaoHandler default_config slow_db_env fresh_store)) = 500
   \<and> body (w (cotacaoHandler default_config slow_db_env fresh_store)) =
       [JObject [(''error'', JString ''GET /cotacao - falha ao salvar dados no banco: falha ao executar query. context deadline exceeded''),
                 (''status_code'', JInt 500)]]
   \<and> db (cotacaoHandler default_config slow_db_env fresh_store) = fresh_store"
proof -
  have h1: "newRequest_fault slow_db_env = None"
    by (simp add: slow_db_env_def quiet_env_def)
  have h2: "fetch default_config slow_db_env = Inr scenario_response"
    by code_simp
  have h3: "decodeBody scenario_response = Inr scenario_quotation"
    by code_simp
  have h4: "save_outcome default_config slow_db_env scenario_quotation fresh_store
      = Inl (Errorf_w ''falha ao executar query. '' DeadlineExceeded)"
    by code_simp
  have w0: "write_fault slow_db_env 0 = None"
    by (simp add: slow_db_env_def quiet_env_def)
  from persistence_failure_reported [OF h1 h2 h3 h4] h1 h2 h3 h4 w0 show ?thesis
    by (simp add: error_doc_def encode_ErrorResponse_def Errorf_w_def DeadlineExceeded_def)
qed

lemma handler_newRequest_failed:
  assumes "newRequest_fault env = Some err"
  shows "cotacaoHandler cfg env s =
           sendMsgError env (''GET /cotacao - falha ao criar requisi????o: '' @ err_text err) 500
             \<lparr>w = new_ResponseWriter, db = s, logs = [''GET /cotacao''], calls = []\<rparr>"
  using assms
  by (simp add: cotacaoHandler_def Let_def StatusInternalServerError_def)

lemma handler_save_failed_calls:
  assumes "newRequest_fault env = None" and "fetch cfg env = Inr resp"
    and "decodeBody resp = Inr cotacao" and "save_outcome cfg env cotacao s = Inl err"
  shows "set (calls (cotacaoHandler cfg env s)) \<subseteq>
           {HttpDo ''GET'' cotacaoURL (request_ctx cfg env), DbPrepare insert_cotacao,
            DbExecContext (db_ctx cfg env) insert_cotacao (insert_args cotacao)}"
proof -
  let ?st1 = "\<lparr>w = new_ResponseWriter, db = s, logs = [''GET /cotacao''],
              calls = [HttpDo ''GET'' cotacaoURL (request_ctx cfg env)]\<rparr>"
  from assms(4) have "save_outcome cfg env cotacao (db ?st1) = Inl err" by simp
  from save_failed [OF this] obtain st' where
    st': "saveQuotationToDB cfg env (r_Context env) cotacao ?st1 = (Some err, st')"
    and c: "calls st' = calls ?st1 @ [DbPrepare insert_cotacao]
          \<or> calls st' = calls ?st1 @ [DbPrepare insert_cotacao,
                DbExecContext (db_ctx cfg env) insert_cotacao (insert_args cotacao)]"
    by blast
  from assms(1-3) st' [unfolded request_ctx_def] have
    "cotacaoHandler cfg env s =
       sendMsgError env (''GET /cotacao - falha ao salvar dados no banco: '' @ err_text err) 500 st'"
    by (simp add: cotacaoHandler_def fetch_def request_ctx_def decodeBody_def Let_def
        StatusInternalServerError_def)
  with c show ?thesis
    by (auto simp: sendMsgError_keeps)
qed

lemma handler_calls:
  "set (calls (cotacaoHandler cfg env s)) \<subseteq>
     {HttpDo ''GET'' cotacaoURL (request_ctx cfg env), DbPrepare insert_cotacao}
     \<union> {DbExecContext (db_ctx cfg env) insert_cotacao args | args. True}"
proof (cases "newRequest_fault env")
  case (Some err)
  then show ?thesis
    by (simp add: handler_newRequest_failed sendMsgError_keeps)
next
  case None
  show ?thesis
  proof (cases "fetch cfg env")
    case (Inl err)
    with None show ?thesis
      by (simp add: handler_fetch_failed sendMsgError_keeps)
  next
    case (Inr resp)
    note fetched = this
    show ?thesis
    proof (cases "decodeBody resp")
      case (Inl err)
      with None fetched show ?thesis
        by (simp add: handler_decode_failed sendMsgError_keeps)
    next
      case (Inr cotacao)
      note decoded = this
      show ?thesis
      proof (cases "save_outcome cfg env cotacao s")
        case (Inl err)
        from handler_save_failed_calls [OF None fetched decoded Inl] show ?thesis
          by auto
      next
        case (Inr s')
        from handler_saved [OF None fetched decoded Inr] show ?thesis
          by (auto simp: Let_def sendMsgError_keeps split: prod.splits option.splits)
      qed
    qed
  qed
qed

subsection \<open>The two deadlines\<close>

text \<open>
  C2. The outbound GET is bound to the context derived from the inbound request's
  context with the request timeout: its deadline is the sooner of the inbound deadline,
  if there is one, and the clock plus the request timeout. The insert is bound to a
  context derived from the inbound request's context (not from the outbound one) with
  the database timeout: its deadline is the sooner of the inbound deadline, if any, and
  the clock at that point plus the database timeout, whatever the request timeout is.
  The GET is issued whenever the request could be built.
\<close>

theorem deadlines_of_outbound_call_and_insert:
  "(\<forall>m u ctx. HttpDo m u ctx \<in> set (calls (cotacaoHandler cfg env s)) \<longrightarrow>
       ctx = WithTimeout (now_handler env) (r_Context env) (requestTimeout cfg)
       \<and> deadline ctx =
           Some (min_deadline (deadline (r_Context env)) (now_handler env) (requestTimeout cfg)))
   \<and> (\<forall>ctx stmt args. DbExecContext ctx stmt args \<in> set (calls (cotacaoHandler cfg env s)) \<longrightarrow>
       ctx = WithTimeout (now_save env) (r_Context env) (databaseTimeout cfg)
       \<and> deadline ctx =
           Some (min_deadline (deadline (r_Context env)) (now_save env) (databaseTimeout cfg)))
   \<and> (newRequest_fault env = None \<longrightarrow>
        HttpDo ''GET'' cotacaoURL (request_ctx cfg env) \<in> set (calls (cotacaoHandler cfg env s)))"
proof -
  have present: "newRequest_fault env = None \<longrightarrow>
      HttpDo ''GET'' cotacaoURL (request_ctx cfg env) \<in> set (calls (cotacaoHandler cfg env s))"
    by (auto simp: cotacaoHandler_def saveQuotationToDB_def Let_def sendMsgError_keeps request_ctx_def
          split: sum.splits prod.splits option.splits)
  from handler_calls [of cfg env s] present show ?thesis
    by (auto simp: request_ctx_def db_ctx_def deadline_WithTimeout)
qed

theorem deadlines_of_outbound_call_and_insert_witness:
  "HttpDo ''GET'' cotacaoURL \<lparr>deadline = Some 200000000\<rparr>
     \<in> set (calls (cotacaoHandler long_db_config (quiet_env scenario_doc) fresh_store))
   \<and> deadline \<lparr>deadline = Some 200000000\<rparr> =
       Some (min_deadline (deadline (r_Context (quiet_env scenario_doc)))
               (now_handler (quiet_env scenario_doc)) (requestTimeout long_db_config))
   \<and> DbExecContext \<lparr>deadline = Some 1150000000\<rparr> insert_cotacao (insert_args scenario_quotation)
     \<in> set (calls (cotacaoHandler long_db_config (quiet_env scenario_doc) fresh_store))
   \<and> deadline \<lparr>deadline = Some 1150000000\<rparr> =
       Some (min_deadline (deadline (r_Context (quiet_env scenario_doc)))
               (now_save (quiet_env scenario_doc)) (databaseTimeout long_db_config))
   \<and> newRequest_fault (quiet_env scenario_doc) = None"
proof -
  have c: "calls (cotacaoHandler long_db_config (quiet_env scenario_doc) fresh_store) =
      [HttpDo ''GET'' cotacaoURL \<lparr>deadline = Some 200000000\<rparr>,
       DbPrepare insert_cotacao,
       DbExecContext \<lparr>deadline = Some 1150000000\<rparr> insert_cotacao (insert_args scenario_quotation)]"
    by code_simp
  have m1: "HttpDo ''GET'' cotacaoURL \<lparr>deadline = Some 200000000\<rparr>
     \<in> set (calls (cotacaoHandler long_db_config (quiet_env scenario_doc) fresh_store))"
    by (simp add: c)
  have m2: "DbExecContext \<lparr>deadline = Some 1150000000\<rparr> insert_cotacao (insert_args scenario_quotation)
     \<in> set (calls (cotacaoHandler long_db_config (quiet_env scenario_doc) fresh_store))"
    by (simp add: c)
  have n: "newRequest_fault (quiet_env scenario_doc) = None"
    by (simp add: quiet_env_def)
  note t = deadlines_of_outbound_call_and_insert
             [of long_db_config "quiet_env scenario_doc" fresh_store]
  from t m1 have d1: "deadline \<lparr>deadline = Some 200000000\<rparr> =
       Some (min_deadline (deadline (r_Context (quiet_env scenario_doc)))
               (now_handler (quiet_env scenario_doc)) (requestTimeout long_db_config))"
    by blast
  from t m2 have d2: "deadline \<lparr>deadline = Some 1150000000\<rparr> =
       Some (min_deadline (deadline (r_Context (quiet_env scenario_doc)))
               (now_save (quiet_env scenario_doc)) (databaseTimeout long_db_config))"
    by blast
  from m1 d1 m2 d2 n show ?thesis
    by blast
qed

subsection \<open>The failure paths and the status sent\<close>

text \<open>
  On the four failure paths that come before the reply (the request cannot be built, the
  outbound call fails, the body does not decode, the insert fails) the status sent is
  500 and the body, when its write succeeds, is the \<open>ErrorResponse\<close> with the logged
  message and \<open>status_code\<close> 500.
\<close>

lemma failure_before_reply_sends_500:
  assumes "newRequest_fault env \<noteq> None
         \<or> (\<exists>err. fetch cfg env = Inl err)
         \<or> (\<exists>resp. fetch cfg env = Inr resp
              \<and> ((\<exists>err. decodeBody resp = Inl err)
                 \<or> (\<exists>cotacao err. decodeBody resp = Inr cotacao
                       \<and> save_outcome cfg env cotacao s = Inl err)))"
  shows "status (w (cotacaoHandler cfg env s)) = 500
       \<and> body (w (cotacaoHandler cfg env s)) =
           (case write_fault env 0 of
              None \<Rightarrow> [error_doc (last (logs (cotacaoHandler cfg env s))) 500]
            | Some e \<Rightarrow> [])"
proof (cases "newRequest_fault env")
  case (Some err)
  then show ?thesis
    by (simp add: handler_newRequest_failed sendMsgError_keeps sendMsgError_fresh
          new_ResponseWriter_fresh split: option.splits)
next
  case None
  show ?thesis
  proof (cases "fetch cfg env")
    case (Inl err)
    with None show ?thesis
      by (simp add: handler_fetch_failed sendMsgError_keeps sendMsgError_fresh
            new_ResponseWriter_fresh split: option.splits)
  next
    case (Inr resp)
    note fetched = this
    show ?thesis
    proof (cases "decodeBody resp")
      case (Inl err)
      with None fetched show ?thesis
        by (simp add: handler_decode_failed sendMsgError_keeps sendMsgError_fresh
              new_ResponseWriter_fresh split: option.splits)
    next
      case (Inr cotacao)
      with assms None fetched obtain err where "save_outcome cfg env cotacao s = Inl err"
        by auto
      from handler_save_failed [OF None fetched Inr this] obtain st where
        "cotacaoHandler cfg env s =
           sendMsgError env (''GET /cotacao - falha ao salvar dados no banco: '' @ err_text err) 500 st"
        and "w st = new_ResponseWriter"
        by blast
      then show ?thesis
        by (simp add: sendMsgError_keeps sendMsgError_fresh new_ResponseWriter_fresh
              split: option.splits)
    qed
  qed
qed

text \<open>
  C5. A request for which every stage succeeds and the write of the reply fails (the
  run \<open>broken_reply_env\<close>): the handler has called \<open>WriteHeader(200)\<close> before encoding,
  so the \<open>WriteHeader(500)\<close> of \<open>sendMsgError\<close> is superfluous and the status sent
  stays 200; the body is the \<open>ErrorResponse\<close> that names status code 500.
\<close>

theorem encode_failure_keeps_status_200:
  "status (w (cotacaoHandler default_config broken_reply_env fresh_store)) = 200
   \<and> body (w (cotacaoHandler default_config broken_reply_env fresh_store)) =
       [JObject [(''error'', JString ''GET /cotacao - falha ao enviar requisi????o: write: broken pipe''),
                 (''status_code'', JInt 500)]]"
  by code_simp

text \<open>
  C6. On that same run the failure is logged and the \<open>ErrorResponse\<close> is sent with
  \<open>status_code\<close> 500, while the HTTP status written for the response is not 500: the
  body's status code and the status of the response differ on this failure path.
\<close>

theorem encode_failure_status_code_mismatch:
  "logs (cotacaoHandler default_config broken_reply_env fresh_store) =
     [''GET /cotacao'', ''GET /cotacao - falha ao enviar requisi????o: write: broken pipe'']
   \<and> body (w (cotacaoHandler default_config broken_reply_env fresh_store)) =
       [error_doc ''GET /cotacao - falha ao enviar requisi????o: write: broken pipe'' 500]
   \<and> status (w (cotacaoHandler default_config broken_reply_env fresh_store)) \<noteq> 500"
  by code_simp

subsection \<open>Creating the table at startup\<close>

lemma sqlite_create_existing:
  "map_of s name = Some t \<Longrightarrow> db_Exec None (CreateTable True name cols) s = Inr s"
  by (simp add: db_Exec_def sqlite_prepare_def sqlite_step_def)

lemma sqlite_create_missing:
  "map_of s name = None \<Longrightarrow>
     db_Exec None (CreateTable ine name cols) s = Inr (s @ [(name, \<lparr>columns = cols, rows = []\<rparr>)])"
  by (simp add: db_Exec_def sqlite_prepare_def sqlite_step_def)

text \<open>
  C9. When no fault is injected, \<open>startDatabase\<close> on a store that already has the table
  \<open>cotacao\<close> succeeds and returns the store unchanged; on any store it succeeds, the
  table exists afterwards, and running it again on the result changes nothing.
\<close>

theorem startDatabase_idempotent:
  "(map_of s ''cotacao'' \<noteq> None \<longrightarrow> startDatabase None None s = Inr s)
   \<and> (\<exists>s'. startDatabase None None s = Inr s'
           \<and> map_of s' ''cotacao'' \<noteq> None
           \<and> startDatabase None None s' = Inr s')"
proof (cases "map_of s ''cotacao''")
  case None
  then have "startDatabase None None s =
      Inr (s @ [(''cotacao'', \<lparr>columns = cotacao_columns, rows = []\<rparr>)])"
    by (simp add: startDatabase_def create_cotacao_def sqlite_create_missing)
  moreover from None have
    m: "map_of (s @ [(''cotacao'', \<lparr>columns = cotacao_columns, rows = []\<rparr>)]) ''cotacao''
      = Some \<lparr>columns = cotacao_columns, rows = []\<rparr>"
    by (simp add: map_add_def)
  then have "startDatabase None None (s @ [(''cotacao'', \<lparr>columns = cotacao_columns, rows = []\<rparr>)])
      = Inr (s @ [(''cotacao'', \<lparr>columns = cotacao_columns, rows = []\<rparr>)])"
    by (simp add: startDatabase_def create_cotacao_def sqlite_create_existing)
  ultimately show ?thesis
    using None m by simp
next
  case (Some t)
  then have "startDatabase None None s = Inr s"
    by (simp add: startDatabase_def create_cotacao_def sqlite_create_existing)
  with Some show ?thesis
    by simp
qed

theorem startDatabase_idempotent_witness:
  "map_of fresh_store ''cotacao'' \<noteq> None
   \<and> startDatabase None None fresh_store = Inr fresh_store
   \<and> startDatabase None None [] = Inr fresh_store"
proof -
  have e: "map_of fresh_store ''cotacao'' \<noteq> None"
    by (simp add: fresh_store_def)
  from startDatabase_idempotent [of fresh_store] e
  have r: "startDatabase None None fresh_store = Inr fresh_store"
    by blast
  have f: "startDatabase None None [] = Inr fresh_store"
    by code_simp
  from e r f show ?thesis
    by blast
qed

section \<open>Properties of the client\<close>

lemma Fatal_simps:
  "exit_status (Fatal text st) = 1" "files (Fatal text st) = files st"
  "stderr (Fatal text st) = stderr st @ [text]" "sent (Fatal text st) = sent st"
  by (simp_all add: Fatal_def)

lemma map_of_fs_put:
  "map_of (fs_put name content fs) n = (if n = name then Some content else map_of fs n)"
proof (cases "map_of fs name")
  case None
  then show ?thesis
    by (auto simp: fs_put_def map_add_def split: option.splits)
next
  case (Some old)
  have "map_of (map (\<lambda>(n', c). if n' = name then (n', content) else (n', c)) fs) n =
      (if n = name then map_option (\<lambda>_. content) (map_of fs n) else map_of fs n)"
    by (induction fs) auto
  with Some show ?thesis
    by (auto simp: fs_put_def)
qed

lemma handleError_result:
  "exit_status (handleError r st) = 1"
  "files (handleError r st) = files st"
  "sent (handleError r st) = sent st"
  by (simp_all add: handleError_def Fatal_simps split: sum.splits)

text \<open>The client decodes the documents the server encodes into the values they were made of.\<close>

lemma keyMatches_client_fields:
  "keyMatches ''error'' ''error''" "\<not> keyMatches ''error'' ''status_code''"
  "keyMatches ''status_code'' ''status_code''" "keyMatches ''bid'' ''bid''"
  by code_simp+

lemma decode_error_doc:
  assumes "- (2 ^ 63) \<le> code" and "code < 2 ^ 63"
  shows "Decode ''main.ErrorResponse'' ErrorResponse_fields (Inr (error_doc msg code))
           zero_ErrorResponse = Inr \<lparr>Error = msg, StatusCode = code\<rparr>"
  using assms
  by (simp add: Decode_def decodeStruct_def error_doc_def encode_ErrorResponse_def
        ErrorResponse_fields_def keyMatches_client_fields stringField_def intField_def
        zero_ErrorResponse_def)

lemma decode_bid_doc:
  "Decode ''main.QuotationResponse'' QuotationResponse_fields (Inr (bid_doc bid))
     zero_QuotationResponse = Inr \<lparr>QuotationResponse.Bid = bid\<rparr>"
  by (simp add: Decode_def decodeStruct_def bid_doc_def encode_QuotationResponse_def
        QuotationResponse_fields_def keyMatches_client_fields stringField_def
        zero_QuotationResponse_def)

text \<open>
  C7. For a response whose status is not 200 the client exits with status 1, has made
  exactly one request and leaves the files alone. When the body decodes as an
  \<open>ErrorResponse\<close>, what it prints is exactly \<open>Ocorreu um erro:\<close> with the embedded
  message and, on the next line, \<open>Codigo:\<close> with the embedded status code; when the body
  does not decode, it prints the decode error instead.
\<close>

theorem non_200_reported_and_fatal:
  assumes "cl_newRequest_fault env = None" and "client_fetch timeout env = Inr resp"
    and "resp_StatusCode resp \<noteq> 200"
  shows "exit_status (makeRequest timeout env fs) = 1
       \<and> length (sent (makeRequest timeout env fs)) = 1
       \<and> files (makeRequest timeout env fs) = fs
       \<and> (\<forall>errResp. decodeErrorResponse resp = Inr errResp \<longrightarrow>
            stderr (makeRequest timeout env fs) =
              [''Ocorreu um erro: '' @ Error errResp @ [newline] @ ''C'' @ o_acute @ ''digo: ''
                 @ fmt_d (StatusCode errResp) @ [newline]])
       \<and> (\<forall>err. decodeErrorResponse resp = Inl err \<longrightarrow>
            stderr (makeRequest timeout env fs) =
              [Sprintln2 (''Falha ao decodificar corpo da requisi'' @ c_cedilla @ a_tilde @ ''o:'')
                 (err_text err)])"
proof -
  from assms have
    "makeRequest timeout env fs =
       handleError (resp_Body resp)
         \<lparr>exit_status = 0, files = fs, stderr = [],
          sent = [HttpDo ''GET'' ''http://localhost:8080/cotacao''
                    (WithTimeout (cl_now env) Background timeout)]\<rparr>"
    by (simp add: makeRequest_def client_fetch_def Let_def StatusOK_def)
  then show ?thesis
    by (simp add: handleError_result)
       (simp add: handleError_def decodeErrorResponse_def Fatal_simps)
qed

theorem non_200_reported_and_fatal_witness:
  "cl_newRequest_fault timeout_reply_env = None
   \<and> client_fetch 200000000 timeout_reply_env = Inr timeout_reply
   \<and> resp_StatusCode timeout_reply \<noteq> 200
   \<and> decodeErrorResponse timeout_reply =
       Inr \<lparr>Error = ''requisi????o ultrapassou o tempo m??ximo de 200ms'', StatusCode = 500\<rparr>
   \<and> exit_status (makeRequest 200000000 timeout_reply_env []) = 1
   \<and> length (sent (makeRequest 200000000 timeout_reply_env [])) = 1
   \<and> files (makeRequest 200000000 timeout_reply_env []) = []
   \<and> stderr (makeRequest 200000000 timeout_reply_env []) =
       [''Ocorreu um erro: requisi????o ultrapassou o tempo m??ximo de 200ms'' @ [newline]
          @ ''C'' @ o_acute @ ''digo: 500'' @ [newline]]"
proof -
  have h1: "cl_newRequest_fault timeout_reply_env = None"
    by (simp add: timeout_reply_env_def)
  have h2: "client_fetch 200000000 timeout_reply_env = Inr timeout_reply"
    by code_simp
  have h3: "resp_StatusCode timeout_reply \<noteq> 200"
    by (simp add: timeout_reply_def)
  have d: "decodeErrorResponse timeout_reply =
       Inr \<lparr>Error = ''requisi????o ultrapassou o tempo m??ximo de 200ms'', StatusCode = 500\<rparr>"
    by code_simp
  have f: "fmt_d 500 = ''500''"
    by code_simp
  from non_200_reported_and_fatal [OF h1 h2 h3, of "[]"] d
  have "exit_status (makeRequest 200000000 timeout_reply_env []) = 1
       \<and> length (sent (makeRequest 200000000 timeout_reply_env [])) = 1
       \<and> files (makeRequest 200000000 timeout_reply_env []) = []
       \<and> stderr (makeRequest 200000000 timeout_reply_env []) =
           [''Ocorreu um erro: '' @ ''requisi????o ultrapassou o tempo m??ximo de 200ms''
              @ [newline] @ ''C'' @ o_acute @ ''digo: '' @ fmt_d 500 @ [newline]]"
    by simp
  with h1 h2 h3 d show ?thesis
    by (simp add: f)
qed

text \<open>
  C8. For a response with status 200 whose body decodes as a \<open>QuotationResponse\<close>, the
  client opens \<open>cotacao.txt\<close> (created empty when absent, kept when present) and writes
  the one line \<open>Dolar: bid\<close> at its end: afterwards the file holds its former content
  followed by that line, every other file is as before, one request has been made and
  the exit status is 0. Only when the system refuses the open or the write is the line
  missing, and then the exit status is 1.
\<close>

theorem quotation_line_appended:
  assumes "cl_newRequest_fault env = None" and "client_fetch timeout env = Inr resp"
    and "resp_StatusCode resp = 200" and "decodeQuotationResponse resp = Inr cotacao"
  shows "map_of (files (makeRequest timeout env fs)) fileName =
           (case cl_open_fault env of
              Some e \<Rightarrow> map_of fs fileName
            | None \<Rightarrow>
                (case cl_write_fault env of
                   Some e \<Rightarrow> Some (file_content fs fileName)
                 | None \<Rightarrow>
                     Some (file_content fs fileName
                             @ ''D'' @ o_acute @ ''lar: '' @ QuotationResponse.Bid cotacao
                             @ [newline])))
       \<and> (\<forall>n. n \<noteq> fileName \<longrightarrow> map_of (files (makeRequest timeout env fs)) n = map_of fs n)
       \<and> exit_status (makeRequest timeout env fs) =
           (if cl_open_fault env = None \<and> cl_write_fault env = None then 0 else 1)
       \<and> length (sent (makeRequest timeout env fs)) = 1"
proof -
  from assms(1-3) have m:
    "makeRequest timeout env fs =
       saveQuotationToFile env (resp_Body resp)
         \<lparr>exit_status = 0, files = fs, stderr = [],
          sent = [HttpDo ''GET'' ''http://localhost:8080/cotacao''
                    (WithTimeout (cl_now env) Background timeout)]\<rparr>"
    by (simp add: makeRequest_def client_fetch_def Let_def StatusOK_def)
  show ?thesis
  proof (cases "map_of fs fileName")
    case None
    with assms(4) show ?thesis
      by (simp add: m saveQuotationToFile_def decodeQuotationResponse_def OpenFile_def
            file_Write_def Let_def map_of_fs_put file_content_def Fatal_simps
            split: option.splits)
  next
    case (Some old)
    with assms(4) show ?thesis
      by (simp add: m saveQuotationToFile_def decodeQuotationResponse_def OpenFile_def
            file_Write_def Let_def map_of_fs_put file_content_def Fatal_simps
            split: option.splits)
  qed
qed

theorem quotation_line_appended_witness:
  "cl_newRequest_fault bid_reply_env = None
   \<and> client_fetch 200000000 bid_reply_env = Inr bid_reply
   \<and> resp_StatusCode bid_reply = 200
   \<and> decodeQuotationResponse bid_reply = Inr \<lparr>QuotationResponse.Bid = ''5.45''\<rparr>
   \<and> cl_open_fault bid_reply_env = None
   \<and> cl_write_fault bid_reply_env = None
   \<and> map_of (files (makeRequest 200000000 bid_reply_env [])) fileName =
       Some (''D'' @ o_acute @ ''lar: 5.45'' @ [newline])
   \<and> map_of (files (makeRequest 200000000 bid_reply_env old_files)) fileName =
       Some (''D'' @ o_acute @ ''lar: 5.40'' @ [newline] @ ''D'' @ o_acute @ ''lar: 5.45'' @ [newline])
   \<and> exit_status (makeRequest 200000000 bid_reply_env []) = 0"
proof -
  have h1: "cl_newRequest_fault bid_reply_env = None"
    by (simp add: bid_reply_env_def)
  have h2: "client_fetch 200000000 bid_reply_env = Inr bid_reply"
    by code_simp
  have h3: "resp_StatusCode bid_reply = 200"
    by (simp add: bid_reply_def)
  have h4: "decodeQuotationResponse bid_reply = Inr \<lparr>QuotationResponse.Bid = ''5.45''\<rparr>"
    by code_simp
  have h5: "cl_open_fault bid_reply_env = None"
    by (simp add: bid_reply_env_def)
  have h6: "cl_write_fault bid_reply_env = None"
    by (simp add: bid_reply_env_def)
  note t = quotation_line_appended [OF h1 h2 h3 h4]
  from t [of "[]"] t [of old_files] h1 h2 h3 h4 h5 h6
  show ?thesis
    by (simp add: file_content_def fileName_def old_files_def)
qed

section \<open>Decoding documents that lack the quotation\<close>

lemma decodeObject_no_keys:
  "list_all (\<lambda>m. \<not> is_field_key fs (fst m)) ms \<Longrightarrow> decodeObject fs ms x = Inr x"
proof (induction ms)
  case Nil
  then show ?case by simp
next
  case (Cons m ms)
  obtain k v where m: "m = (k, v)" by (cases m)
  from Cons.prems m have "find (\<lambda>f. keyMatches (fst f) k) fs = None"
    by (auto simp: is_field_key_def find_None_iff list_ex_iff)
  with Cons m show ?case
    by simp
qed

lemma decodeStruct_lacks_fields:
  "lacks_fields v \<Longrightarrow> decodeStruct ty Quotation_fields v q = Inr q"
  by (cases v) (simp_all add: decodeStruct_def decodeObject_no_keys)

lemma decodeObject_lacks_quotation:
  "list_all (\<lambda>m. keyMatches ''USDBRL'' (fst m) \<longrightarrow> lacks_fields (snd m)) ms \<Longrightarrow>
     decodeObject USDBRLQuotation_fields ms x = Inr x"
proof (induction ms)
  case Nil
  then show ?case by simp
next
  case (Cons m ms)
  obtain k v where m: "m = (k, v)" by (cases m)
  show ?case
  proof (cases "keyMatches ''USDBRL'' k")
    case True
    with Cons.prems m have "lacks_fields v" by simp
    with True Cons m show ?thesis
      by (simp add: USDBRLQuotation_fields_def decodeStruct_lacks_fields)
  next
    case False
    with Cons m show ?thesis
      by (simp add: USDBRLQuotation_fields_def)
  qed
qed

lemma decode_lacks_quotation:
  "lacks_quotation j \<Longrightarrow>
     Decode ''main.USDBRLQuotation'' USDBRLQuotation_fields (Inr j) zero_USDBRLQuotation
       = Inr zero_USDBRLQuotation"
  by (cases j) (simp_all add: Decode_def decodeStruct_def decodeObject_lacks_quotation)

lemma zero_insert_args:
  "zip cotacao_columns (insert_args zero_USDBRLQuotation) = map (\<lambda>c. (c, [])) cotacao_columns"
  by (simp add: cotacao_columns_def insert_args_def zero_USDBRLQuotation_def zero_Quotation_def)

lemma stringField_succeeds: "(\<exists>x'. stringField upd v x = Inr x') \<longleftrightarrow> fits_string v"
  by (cases v) (simp_all add: stringField_def)

lemma Quotation_field_is_string:
  "f \<in> set Quotation_fields \<Longrightarrow> \<exists>upd. snd f = stringField upd"
  by (auto simp: Quotation_fields_def)

lemma Quotation_field_succeeds:
  assumes "f \<in> set Quotation_fields"
  shows "(\<exists>q'. snd f v q = Inr q') \<longleftrightarrow> fits_string v"
proof -
  from Quotation_field_is_string [OF assms] obtain upd where "snd f = stringField upd" ..
  then show ?thesis
    by (simp add: stringField_succeeds)
qed

lemma decodeObject_Quotation_succeeds:
  "(\<exists>q'. decodeObject Quotation_fields ms q = Inr q') \<longleftrightarrow>
     list_all (\<lambda>m. is_field_key Quotation_fields (fst m) \<longrightarrow> fits_string (snd m)) ms"
proof (induction ms arbitrary: q)
  case Nil
  then show ?case by simp
next
  case (Cons m ms)
  obtain k v where m: "m = (k, v)" by (cases m)
  show ?case
  proof (cases "find (\<lambda>f. keyMatches (fst f) k) Quotation_fields")
    case None
    then have "\<not> is_field_key Quotation_fields k"
      by (auto simp: is_field_key_def find_None_iff list_ex_iff)
    with None Cons m show ?thesis
      by simp
  next
    case (Some f)
    then have f: "f \<in> set Quotation_fields" and k: "is_field_key Quotation_fields k"
      by (auto simp: is_field_key_def find_Some_iff list_ex_iff)
    show ?thesis
    proof (cases "snd f v q")
      case (Inl e)
      with Quotation_field_succeeds [OF f, of v q] have "\<not> fits_string v"
        by simp
      with Inl Some k m show ?thesis
        by simp
    next
      case (Inr q')
      with Quotation_field_succeeds [OF f, of v q] have "fits_string v"
        by auto
      with Inr Some k m Cons [of q'] show ?thesis
        by simp
    qed
  qed
qed

lemma decodeStruct_Quotation_succeeds:
  "(\<exists>q'. decodeStruct ty Quotation_fields v q = Inr q') \<longleftrightarrow> fits_Quotation v"
  by (cases v) (simp_all add: decodeStruct_def decodeObject_Quotation_succeeds)

lemma decodeObject_USDBRLQuotation_succeeds:
  "(\<exists>x'. decodeObject USDBRLQuotation_fields ms x = Inr x') \<longleftrightarrow>
     list_all (\<lambda>m. keyMatches ''USDBRL'' (fst m) \<longrightarrow> fits_Quotation (snd m)) ms"
proof (induction ms arbitrary: x)
  case Nil
  then show ?case by simp
next
  case (Cons m ms)
  obtain k v where m: "m = (k, v)" by (cases m)
  show ?case
  proof (cases "keyMatches ''USDBRL'' k")
    case False
    with Cons m show ?thesis
      by (simp add: USDBRLQuotation_fields_def)
  next
    case True
    show ?thesis
    proof (cases "decodeStruct ''main.Quotation'' Quotation_fields v (Quotation x)")
      case (Inl e)
      with decodeStruct_Quotation_succeeds [of "''main.Quotation''" v "Quotation x"]
      have "\<not> fits_Quotation v"
        by simp
      with Inl True m show ?thesis
        by (simp add: USDBRLQuotation_fields_def)
    next
      case (Inr q')
      with decodeStruct_Quotation_succeeds [of "''main.Quotation''" v "Quotation x"]
      have "fits_Quotation v"
        by auto
      with Inr True m Cons [of "x\<lparr>Quotation := q'\<rparr>"] show ?thesis
        by (simp add: USDBRLQuotation_fields_def)
    qed
  qed
qed

text \<open>
  Decoding a well-formed body succeeds exactly when the document fits the struct: the
  decode-failure branch is taken for the other well-formed documents too.
\<close>

lemma decode_succeeds_iff_fits:
  "(\<exists>cotacao. Decode ''main.USDBRLQuotation'' USDBRLQuotation_fields (Inr j)
                  zero_USDBRLQuotation = Inr cotacao) \<longleftrightarrow> fits_USDBRLQuotation j"
  by (cases j) (simp_all add: Decode_def decodeStruct_def decodeObject_USDBRLQuotation_succeeds)

text \<open>
  C10. Missing fields do not take the decode-failure branch: for a response
  whose body is a well-formed document that lacks the quotation (\<open>null\<close>, or an object in
  which each member matching \<open>USDBRL\<close> is \<open>null\<close> or an object with none of the
  \<open>Quotation\<close> fields, such as \<open>{}\<close>), decoding succeeds with every field empty. The
  insert is then attempted with eleven empty strings: when it succeeds the row of empty
  strings is stored and the status is 200, with the body \<open>{"bid": ""}\<close> when its write
  succeeds; when it fails the status is 500 and the store is unchanged.
\<close>

theorem missing_fields_decode_to_empty:
  assumes "newRequest_fault env = None" and "fetch cfg env = Inr resp"
    and "resp_Body resp = Inr j" and "lacks_quotation j"
  shows "decodeBody resp = Inr zero_USDBRLQuotation
       \<and> (case save_outcome cfg env zero_USDBRLQuotation s of
            Inl err \<Rightarrow>
              status (w (cotacaoHandler cfg env s)) = 500 \<and> db (cotacaoHandler cfg env s) = s
          | Inr s' \<Rightarrow>
              db (cotacaoHandler cfg env s) = s'
              \<and> stored_rows s' = stored_rows s @ [map (\<lambda>c. (c, [])) cotacao_columns]
              \<and> status (w (cotacaoHandler cfg env s)) = 200
              \<and> body (w (cotacaoHandler cfg env s)) =
                  (case write_fault env 0 of
                     None \<Rightarrow> [bid_doc []]
                   | Some err \<Rightarrow>
                       (case write_fault env 1 of
                          None \<Rightarrow>
                            [error_doc (''GET /cotacao - falha ao enviar requisi????o: ''
                                          @ err_text err) 500]
                        | Some err' \<Rightarrow> [])))"
proof -
  from assms(3,4) have d: "decodeBody resp = Inr zero_USDBRLQuotation"
    by (simp add: decodeBody_def decode_lacks_quotation)
  have b: "Quotation.Bid (Quotation zero_USDBRLQuotation) = []"
    by (simp add: zero_USDBRLQuotation_def zero_Quotation_def)
  show ?thesis
  proof (cases "save_outcome cfg env zero_USDBRLQuotation s")
    case (Inl err)
    from handler_save_failed [OF assms(1,2) d Inl] obtain st where
      "cotacaoHandler cfg env s =
         sendMsgError env (''GET /cotacao - falha ao salvar dados no banco: '' @ err_text err) 500 st"
      and "w st = new_ResponseWriter" and "db st = s"
      by blast
    with d Inl show ?thesis
      by (simp add: sendMsgError_keeps sendMsgError_fresh new_ResponseWriter_fresh)
  next
    case (Inr s')
    note h = handler_saved [OF assms(1,2) d Inr]
    note rows = save_ok_rows [OF Inr]
    have "db (cotacaoHandler cfg env s) = s'"
      by (simp add: h Let_def sendMsgError_keeps split: prod.splits option.splits)
    moreover have "status (w (cotacaoHandler cfg env s)) = 200"
      by (simp add: h Let_def sendMsgError_def Encode_def WriteHeader_def new_ResponseWriter_def
            split: prod.splits option.splits)
    moreover have "body (w (cotacaoHandler cfg env s)) =
        (case write_fault env 0 of
           None \<Rightarrow> [bid_doc []]
         | Some err \<Rightarrow>
             (case write_fault env 1 of
                None \<Rightarrow>
                  [error_doc (''GET /cotacao - falha ao enviar requisi????o: '' @ err_text err) 500]
              | Some err' \<Rightarrow> []))"
      by (simp add: h b Let_def sendMsgError_def Encode_def WriteHeader_def new_ResponseWriter_def
            error_doc_def split: option.splits)
    ultimately show ?thesis
      using d Inr rows by (simp add: zero_insert_args)
  qed
qed

theorem missing_fields_decode_to_empty_witness:
  "newRequest_fault (quiet_env empty_doc) = None
   \<and> fetch default_config (quiet_env empty_doc) = Inr \<lparr>resp_StatusCode = 200, resp_Body = Inr empty_doc\<rparr>
   \<and> lacks_quotation empty_doc
   \<and> decodeBody \<lparr>resp_StatusCode = 200, resp_Body = Inr empty_doc\<rparr> = Inr zero_USDBRLQuotation
   \<and> save_outcome default_config (quiet_env empty_doc) zero_USDBRLQuotation fresh_store
       = Inr empty_row_store
   \<and> db (cotacaoHandler default_config (quiet_env empty_doc) fresh_store) = empty_row_store
   \<and> status (w (cotacaoHandler default_config (quiet_env empty_doc) fresh_store)) = 200
   \<and> body (w (cotacaoHandler default_config (quiet_env empty_doc) fresh_store))
       = [JObject [(''bid'', JString [])]]"
proof -
  have h1: "newRequest_fault (quiet_env empty_doc) = None"
    by (simp add: quiet_env_def)
  have h2: "fetch default_config (quiet_env empty_doc)
      = Inr \<lparr>resp_StatusCode = 200, resp_Body = Inr empty_doc\<rparr>"
    by code_simp
  have h3: "resp_Body \<lparr>resp_StatusCode = 200, resp_Body = Inr empty_doc\<rparr> = Inr empty_doc"
    by simp
  have h4: "lacks_quotation empty_doc"
    by (simp add: empty_doc_def)
  have sv: "save_outcome default_config (quiet_env empty_doc) zero_USDBRLQuotation fresh_store
      = Inr empty_row_store"
    by code_simp
  have w0: "write_fault (quiet_env empty_doc) 0 = None"
    by (simp add: quiet_env_def)
  from missing_fields_decode_to_empty [OF h1 h2 h3 h4, of fresh_store] sv w0 h1 h2 h4
  show ?thesis
    by (simp add: bid_doc_def encode_QuotationResponse_def)
qed

text \<open>
  The decode-failure branch is not limited to malformed JSON: a top-level array, which
  is well-formed and has no \<open>USDBRL\<close> key, and an object whose \<open>bid\<close> is a number are
  both rejected by the decoder, and the server answers 500 without storing a row.
\<close>

theorem decode_failure_on_well_formed_json:
  "decodeBody \<lparr>resp_StatusCode = 200, resp_Body = Inr array_doc\<rparr>
     = Inl (UnmarshalTypeError array_doc ''main.USDBRLQuotation'')
   \<and> status (w (cotacaoHandler default_config (quiet_env array_doc) fresh_store)) = 500
   \<and> db (cotacaoHandler default_config (quiet_env array_doc) fresh_store) = fresh_store
   \<and> decodeBody \<lparr>resp_StatusCode = 200, resp_Body = Inr number_bid_doc\<rparr>
     = Inl (UnmarshalTypeError (JReal ''5.45'') ''string'')
   \<and> status (w (cotacaoHandler default_config (quiet_env number_bid_doc) fresh_store)) = 500
   \<and> db (cotacaoHandler default_config (quiet_env number_bid_doc) fresh_store) = fresh_store"
  by code_simp

section \<open>The decoded bid is the bid of the document\<close>

lemma foldName_bid_other:
  "(foldName ''bid'' = foldName ''code'') = False" "(foldName ''bid'' = foldName ''codein'') = False"
  "(foldName ''bid'' = foldName ''name'') = False" "(foldName ''bid'' = foldName ''high'') = False"
  "(foldName ''bid'' = foldName ''low'') = False" "(foldName ''bid'' = foldName ''varBid'') = False"
  "(foldName ''bid'' = foldName ''pctChange'') = False"
  by code_simp+

lemma find_bid_field:
  assumes "keyMatches ''bid'' k"
  shows "find (\<lambda>f. keyMatches (fst f) k) Quotation_fields =
           Some (''bid'', stringField (\<lambda>s x. x\<lparr>Quotation.Bid := s\<rparr>))"
proof -
  from assms have k: "foldName k = foldName ''bid''"
    by (simp only: keyMatches_def)
  show ?thesis
    unfolding Quotation_fields_def keyMatches_def k
    by (simp only: find.simps fst_conv foldName_bid_other if_False if_True refl)
qed

lemma other_field_keeps_bid:
  assumes "\<not> keyMatches ''bid'' k"
    and "find (\<lambda>f. keyMatches (fst f) k) Quotation_fields = Some f"
    and "snd f v q = Inr q'"
  shows "Quotation.Bid q' = Quotation.Bid q"
proof -
  from assms(2) have "f \<in> set Quotation_fields" and "keyMatches (fst f) k"
    by (auto simp: find_Some_iff)
  with assms(1) have "f \<in> set Quotation_fields" and "fst f \<noteq> ''bid''"
    by auto
  with assms(3) show ?thesis
    by (auto simp: Quotation_fields_def stringField_def split: json.splits)
qed

lemma decodeObject_bid:
  "decodeObject Quotation_fields ms q = Inr q' \<Longrightarrow>
     Quotation.Bid q' = document_bid ms (Quotation.Bid q)"
proof (induction ms arbitrary: q)
  case Nil
  then show ?case by simp
next
  case (Cons m ms)
  obtain k v where m: "m = (k, v)" by (cases m)
  show ?case
  proof (cases "keyMatches ''bid'' k")
    case True
    note f = find_bid_field [OF True]
    from Cons.prems m f obtain q1 where
      q1: "stringField (\<lambda>s x. x\<lparr>Quotation.Bid := s\<rparr>) v q = Inr q1"
      and rest: "decodeObject Quotation_fields ms q1 = Inr q'"
      by (auto split: sum.splits)
    from q1 have "Quotation.Bid q1 = (case v of JString s \<Rightarrow> s | _ \<Rightarrow> Quotation.Bid q)"
      by (auto simp: stringField_def split: json.splits)
    with Cons.IH [OF rest] True m show ?thesis
      by (simp split: json.splits)
  next
    case False
    show ?thesis
    proof (cases "find (\<lambda>f. keyMatches (fst f) k) Quotation_fields")
      case None
      with Cons m False show ?thesis
        by simp
    next
      case (Some f)
      with Cons.prems m obtain q1 where
        q1: "snd f v q = Inr q1" and rest: "decodeObject Quotation_fields ms q1 = Inr q'"
        by (auto split: sum.splits)
      from other_field_keeps_bid [OF False Some q1] Cons.IH [OF rest] False m show ?thesis
        by simp
    qed
  qed
qed

text \<open>
  The decoded \<open>Bid\<close> is the string of the document: for a body \<open>{"USDBRL": {...}}\<close> that
  decodes, it is the \<open>bid\<close> string among the members of the inner object (empty when
  there is none), character for character.
\<close>

lemma decoded_bid_is_document_bid:
  assumes "keyMatches ''USDBRL'' k"
    and "decodeBody \<lparr>resp_StatusCode = code, resp_Body = Inr (JObject [(k, JObject ms)])\<rparr>
           = Inr cotacao"
  shows "Quotation.Bid (Quotation cotacao) = document_bid ms []"
proof -
  from assms obtain q' where
    d: "decodeObject Quotation_fields ms zero_Quotation = Inr q'"
    and c: "cotacao = \<lparr>Quotation = q'\<rparr>"
    by (auto simp: decodeBody_def Decode_def decodeStruct_def USDBRLQuotation_fields_def
          zero_USDBRLQuotation_def split: sum.splits)
  from decodeObject_bid [OF d] c show ?thesis
    by (simp add: zero_Quotation_def)
qed

end
